theory Spec2Isabelle
  imports Main
begin

section \<open>JavaScript strings\<close>

text \<open>
  A JavaScript string is a sequence of UTF-16 code units, and \<open>length\<close> counts code
  units. A code unit is the number of its code point, below 65536; the only arithmetic
  on code units is the lowering of the letters A to Z, which stays in the range.
  Literals of the source are written with \<open>js\<close>, which maps the characters of an
  ASCII literal to their code units.
\<close>

type_synonym jschar = nat
type_synonym jsstring = "jschar list"

definition js :: "string \<Rightarrow> jsstring" where
  "js s = map of_char s"

definition hyphen :: jschar where
  "hyphen = 0x2D"

definition space :: jschar where
  "space = 0x20"

definition isHyphen :: "jschar \<Rightarrow> bool" where
  "isHyphen c \<longleftrightarrow> c = hyphen"

text \<open>
  The class \<open>\s\<close> of a regular expression, which is also what \<open>trim\<close> strips:
  the white space and line terminator code points of ECMAScript.
\<close>

definition isWhiteSpace :: "jschar \<Rightarrow> bool" where
  "isWhiteSpace c \<longleftrightarrow>
     c \<in> set [0x09, 0x0A, 0x0B, 0x0C, 0x0D, 0x20, 0xA0, 0x1680,
               0x2028, 0x2029, 0x202F, 0x205F, 0x3000, 0xFEFF]
     \<or> (0x2000 \<le> c \<and> c \<le> 0x200A)"

definition trim :: "jsstring \<Rightarrow> jsstring" where
  "trim s = rev (dropWhile isWhiteSpace (rev (dropWhile isWhiteSpace s)))"

text \<open>Truthiness of a \<open>string | null\<close>: neither null nor the empty string.\<close>

definition truthy :: "jsstring option \<Rightarrow> bool" where
  "truthy name = (case name of None \<Rightarrow> False | Some n \<Rightarrow> n \<noteq> [])"

text \<open>
  \<open>s.replaceAll(pat, '')\<close> for a literal pattern: occurrences are removed from left to
  right, without overlap.
\<close>

function replaceAllEmpty :: "jsstring \<Rightarrow> jsstring \<Rightarrow> jsstring" where
  "replaceAllEmpty pat [] = []"
| "replaceAllEmpty pat (c # cs) =
     (if pat \<noteq> [] \<and> take (length pat) (c # cs) = pat
      then replaceAllEmpty pat (drop (length pat) (c # cs))
      else c # replaceAllEmpty pat cs)"
  by pat_completeness auto
termination
  by (relation "measure (\<lambda>(pat, s). length s)") auto

text \<open>
  \<open>s.replace(/A+|B+|.../g, r)\<close> for character classes \<open>A\<close>, \<open>B\<close>, ...: the
  scan goes from left to right; at each position the first alternative whose class holds
  the code unit there matches the longest run of that class, which is replaced by \<open>r\<close>;
  a code unit in no class is copied.
\<close>

function replaceRuns :: "(jschar \<Rightarrow> bool) list \<Rightarrow> jschar \<Rightarrow> jsstring \<Rightarrow> jsstring" where
  "replaceRuns alts r [] = []"
| "replaceRuns alts r (c # cs) =
     (case find (\<lambda>P. P c) alts of
        None \<Rightarrow> c # replaceRuns alts r cs
      | Some P \<Rightarrow> r # replaceRuns alts r (dropWhile P cs))"
  by pat_completeness auto
termination
  by (relation "measure (\<lambda>(alts, r, s). length s)")
     (auto simp: less_Suc_eq_le length_dropWhile_le)

text \<open>\<open>s.replace(/^-+|-+$/g, '')\<close>: the leading and the trailing run of hyphens go.\<close>

definition trimHyphens :: "jsstring \<Rightarrow> jsstring" where
  "trimHyphens s = rev (dropWhile isHyphen (rev (dropWhile isHyphen s)))"

text \<open>
  \<open>toLowerCase\<close> on the Basic Latin block: the letters A to Z are lowered and every other
  code unit is kept. The case tables of the runtime for the other blocks are not part
  of the program, so \<open>getCreatorNameSlug\<close> below differs from the program on a name with
  a cased letter outside that block. The statements below compute a slug only for names
  without such a letter, and the general ones leave the slug of the claim as it is.
\<close>

definition toLowerCaseUnit :: "jschar \<Rightarrow> jschar" where
  "toLowerCaseUnit c = (if 0x41 \<le> c \<and> c \<le> 0x5A then c + 0x20 else c)"

definition toLowerCase :: "jsstring \<Rightarrow> jsstring" where
  "toLowerCase s = map toLowerCaseUnit s"

section \<open>Errors\<close>

datatype minecraft_auth_error =
    MinecraftAuthRequestError "nat option"
  | MinecraftAuthInvalidAccessTokenError
  | MinecraftAuthMalformedResponseError
  | MinecraftAuthInvalidUuidError jsstring

datatype provider = Paradox | Local | MinecraftOfficial | MinecraftOffline | OtherProvider jsstring

text \<open>
  Everything the service can throw: the subclasses of \<open>CreatorError\<close>, a failed
  \<open>assert\<close> of \<open>node:assert\<close>, and an error of the store with its code.
\<close>

datatype error =
    InvalidCreatorIdError jsstring
  | MissingMinecraftOfficialAccessTokenError
  | MissingMinecraftOfflinePlayerUuidError
  | InvalidMinecraftPlayerUuidError jsstring
  | UnsupportedCreatorIdProviderError provider
  | MinecraftOfficialAuthenticationError minecraft_auth_error
  | InvalidCreatorNameError jsstring
  | CreatorNotFoundError
  | IncorrectCreatorIdError jsstring
  | AssertionError string
  | PrismaError string

fun isCreatorError :: "error \<Rightarrow> bool" where
  "isCreatorError (AssertionError m) = False"
| "isCreatorError (PrismaError code) = False"
| "isCreatorError e = True"

section \<open>Names, slugs and UUIDs\<close>

text \<open>
  The second literal that \<open>getCreatorNameSlug\<close> removes is, in the source file, the three
  code units U+00E2, U+20AC, U+2122.
\<close>

definition apostrophe :: jschar where
  "apostrophe = 0x27"

definition secondLiteral :: jsstring where
  "secondLiteral = [0xE2, 0x20AC, 0x2122]"

definition getCreatorNameSlug :: "jsstring option \<Rightarrow> jsstring option" where
  "getCreatorNameSlug name =
     (case name of
        None \<Rightarrow> None
      | Some n \<Rightarrow>
          if trim n = [] then None
          else Some (toLowerCase (trimHyphens (replaceRuns [isWhiteSpace, isHyphen] hyphen
                 (replaceAllEmpty secondLiteral (replaceAllEmpty [apostrophe] n))))))"

definition validateCreatorName :: "jsstring option \<Rightarrow> error + jsstring option" where
  "validateCreatorName name =
     (case name of
        None \<Rightarrow> Inr None
      | Some n \<Rightarrow>
          if trim n = [] then Inr None
          else if length n > 25 then Inl (InvalidCreatorNameError n)
          else Inr (Some (replaceRuns [isWhiteSpace] space n)))"

text \<open>
  \<open>validate\<close> and \<open>version\<close> of the \<open>uuid\<close> package. \<open>validate\<close> tests the string against
  \<^verbatim>\<open>/^(?:[0-9a-f]{8}-[0-9a-f]{4}-[1-8][0-9a-f]{3}-[89ab][0-9a-f]{3}-[0-9a-f]{12}|00000000-0000-0000-0000-000000000000|ffffffff-ffff-ffff-ffff-ffffffffffff)$/i\<close>;
  the template below has one character per position: \<open>h\<close> a hexadecimal digit,
  \<open>v\<close> the version digit, \<open>r\<close> the variant digit.
\<close>

definition isDigit :: "jschar \<Rightarrow> bool" where
  "isDigit c \<longleftrightarrow> 0x30 \<le> c \<and> c \<le> 0x39"

definition isHexDigit :: "jschar \<Rightarrow> bool" where
  "isHexDigit c \<longleftrightarrow>
     isDigit c \<or> (0x61 \<le> c \<and> c \<le> 0x66) \<or> (0x41 \<le> c \<and> c \<le> 0x46)"

definition fits :: "char \<Rightarrow> jschar \<Rightarrow> bool" where
  "fits t c \<longleftrightarrow>
     (if t = CHR ''h'' then isHexDigit c
      else if t = CHR ''v'' then 0x31 \<le> c \<and> c \<le> 0x38
      else if t = CHR ''r'' then c = 0x38 \<or> c = 0x39 \<or> c = 0x61 \<or> c = 0x62 \<or> c = 0x41 \<or> c = 0x42
      else c = hyphen)"

definition uuid_validate :: "jsstring \<Rightarrow> bool" where
  "uuid_validate s \<longleftrightarrow>
     list_all2 fits ''hhhhhhhh-hhhh-vhhh-rhhh-hhhhhhhhhhhh'' s
     \<or> s = js ''00000000-0000-0000-0000-000000000000''
     \<or> toLowerCase s = js ''ffffffff-ffff-ffff-ffff-ffffffffffff''"

text \<open>
  \<open>version\<close> reads the digit at index 14 of a valid UUID; the service only compares it
  with 4.
\<close>

definition uuid_version_is_4 :: "jsstring \<Rightarrow> bool" where
  "uuid_version_is_4 s \<longleftrightarrow> drop 14 (take 15 s) = js ''4''"

definition ensureValidCreatorId :: "jsstring \<Rightarrow> error + unit" where
  "ensureValidCreatorId creatorId =
     (if \<not> uuid_validate creatorId \<or> \<not> uuid_version_is_4 creatorId
      then Inl (InvalidCreatorIdError creatorId)
      else Inr ())"

definition hyphenated :: "jsstring \<Rightarrow> jsstring" where
  "hyphenated compact =
     take 8 compact @ [hyphen] @ take 4 (drop 8 compact) @ [hyphen]
     @ take 4 (drop 12 compact) @ [hyphen] @ take 4 (drop 16 compact) @ [hyphen]
     @ drop 20 compact"

definition normalizeUuid :: "jsstring \<Rightarrow> minecraft_auth_error + jsstring" where
  "normalizeUuid input =
     (let compact = toLowerCase (replaceAllEmpty [hyphen] input) in
      if length compact \<noteq> 32 then Inl (MinecraftAuthInvalidUuidError input)
      else if \<not> uuid_validate (hyphenated compact) then Inl (MinecraftAuthInvalidUuidError input)
      else Inr (hyphenated compact))"

text \<open>
  The canonical form of a UUID: lower-case hexadecimal digits in groups of 8, 4, 4, 4
  and 12, joined by hyphens.
\<close>

definition isLowerHexDigit :: "jschar \<Rightarrow> bool" where
  "isLowerHexDigit c \<longleftrightarrow> isDigit c \<or> (0x61 \<le> c \<and> c \<le> 0x66)"

definition fitsCanonical :: "char \<Rightarrow> jschar \<Rightarrow> bool" where
  "fitsCanonical t c \<longleftrightarrow> (if t = CHR ''h'' then isLowerHexDigit c else c = hyphen)"

definition canonicalUuid :: "jsstring \<Rightarrow> bool" where
  "canonicalUuid s \<longleftrightarrow> list_all2 fitsCanonical ''hhhhhhhh-hhhh-hhhh-hhhh-hhhhhhhhhhhh'' s"

section \<open>The account store\<close>

text \<open>
  A row of the \<open>creator\<close> table, with the columns the authentication reads or writes. The
  translation columns (\<open>needsTranslation\<close>, \<open>creatorNameLocale\<close>, \<open>creatorNameLatinized\<close>,
  \<open>creatorNameTranslated\<close>), which only the background translation of the name writes, are
  left out: the store records the rows for which a translation was started, not what the
  translation writes later. The row identifier \<open>id\<close> is called \<open>id_row\<close> here.
\<close>

record Creator =
  id_row :: nat
  creatorId :: jsstring
  creatorIdProvider :: provider
  creatorName :: "jsstring option"
  creatorNameSlug :: "jsstring option"
  minecraftPlayerUuid :: "jsstring option"
  allowCreatorIdReset :: bool
  hwids :: "jsstring list"
  ips :: "jsstring list"

text \<open>
  The store: its rows, the number of queries and of write calls (\<open>create\<close>, \<open>update\<close>)
  this service has made, and the rows for which a background translation of the name
  was started (the translation itself runs later, unawaited).
\<close>

record store =
  rows :: "Creator list"
  reads :: nat
  writes :: nat
  translationJobs :: "nat list"

datatype json_property = JAbsent | JString jsstring | JOther

datatype json_body = JNotObject | JObject json_property json_property

datatype fetch_outcome = FetchFailed | Response nat "json_body option"

text \<open>
  What one run of an authentication meets from outside: the answer of the Minecraft
  profile service to a bearer token, and what other requests do to the table between
  this run's query and its write.
\<close>

record world =
  fetchProfile :: "jsstring \<Rightarrow> fetch_outcome"
  concurrent :: "Creator list \<Rightarrow> Creator list"

datatype condition =
    CreatorIdIs jsstring
  | CreatorNameIs jsstring
  | CreatorNameSlugIs "jsstring option"
  | MinecraftPlayerUuidIs jsstring

fun holds :: "condition \<Rightarrow> Creator \<Rightarrow> bool" where
  "holds (CreatorIdIs v) c = (creatorId c = v)"
| "holds (CreatorNameIs v) c = (creatorName c = Some v)"
| "holds (CreatorNameSlugIs v) c = (creatorNameSlug c = v)"
| "holds (MinecraftPlayerUuidIs v) c = (minecraftPlayerUuid c = Some v)"

text \<open>
  \<open>findMany\<close> with either one condition or the \<open>OR\<close> of several: the rows for which
  some condition holds. A condition on a nullable column with the value null selects
  the rows where the column is null.
\<close>

definition findMany :: "condition list \<Rightarrow> store \<Rightarrow> Creator list \<times> store" where
  "findMany conds s =
     (filter (\<lambda>c. list_ex (\<lambda>cond. holds cond c) conds) (rows s), s\<lparr>reads := Suc (reads s)\<rparr>)"

definition findUnique :: "jsstring \<Rightarrow> store \<Rightarrow> Creator option \<times> store" where
  "findUnique cid s = (find (\<lambda>c. creatorId c = cid) (rows s), s\<lparr>reads := Suc (reads s)\<rparr>)"

definition freshId :: "Creator list \<Rightarrow> nat" where
  "freshId rs = Suc (fold max (map id_row rs) 0)"

text \<open>
  Modelled from the spec: the schema of the table is not among the sources. The store
  enforces that \<open>creatorId\<close> is unique and signals a violation with the code \<open>P2002\<close>; a
  new row gets a fresh identifier and \<open>allowCreatorIdReset = false\<close>. An update of a row
  that is no longer there fails with the code \<open>P2025\<close>.
\<close>

definition create :: "world \<Rightarrow> Creator \<Rightarrow> store \<Rightarrow> (error + Creator) \<times> store" where
  "create w data s =
     (let rs = concurrent w (rows s);
          s1 = s\<lparr>rows := rs, writes := Suc (writes s)\<rparr>
      in if list_ex (\<lambda>r. creatorId r = creatorId data) rs
         then (Inl (PrismaError ''P2002''), s1)
         else let c = data\<lparr>id_row := freshId rs, allowCreatorIdReset := False\<rparr>
              in (Inr c, s1\<lparr>rows := rs @ [c]\<rparr>))"

definition update :: "world \<Rightarrow> nat \<Rightarrow> (Creator \<Rightarrow> Creator) \<Rightarrow> store \<Rightarrow> (error + Creator) \<times> store" where
  "update w i f s =
     (let rs = concurrent w (rows s);
          s1 = s\<lparr>rows := rs, writes := Suc (writes s)\<rparr>
      in case find (\<lambda>r. id_row r = i) rs of
           None \<Rightarrow> (Inl (PrismaError ''P2025''), s1)
         | Some r \<Rightarrow>
             if list_ex (\<lambda>x. id_row x \<noteq> i \<and> creatorId x = creatorId (f r)) rs
             then (Inl (PrismaError ''P2002''), s1)
             else (Inr (f r), s1\<lparr>rows := map (\<lambda>x. if id_row x = i then f r else x) rs\<rparr>))"

definition backgroundUpdateCreatorNameTranslation :: "Creator \<Rightarrow> store \<Rightarrow> store" where
  "backgroundUpdateCreatorNameTranslation c s =
     s\<lparr>translationJobs := translationJobs s @ [id_row c]\<rparr>"

section \<open>Bounded histories\<close>

text \<open>
  \<open>Array.from(new Set(xs))\<close>: the elements are added to the set in order, an element
  already there is skipped, and the set is read back in insertion order.
\<close>

definition arrayFromSet :: "'a list \<Rightarrow> 'a list" where
  "arrayFromSet xs = fold (\<lambda>x acc. if x \<in> set acc then acc else acc @ [x]) xs []"

text \<open>\<open>Array.from(new Set([v, ...history])).slice(0, 3)\<close>\<close>

definition mru3 :: "'a \<Rightarrow> 'a list \<Rightarrow> 'a list" where
  "mru3 v history = take 3 (arrayFromSet (v # history))"

text \<open>\<open>history[0] != v\<close>, where \<open>history[0]\<close> of an empty array is undefined.\<close>

definition headDiffers :: "'a list \<Rightarrow> 'a \<Rightarrow> bool" where
  "headDiffers history v = (case history of [] \<Rightarrow> True | x # _ \<Rightarrow> x \<noteq> v)"

text \<open>
  The merge as the specification words it: unchanged when the new value is the head,
  else the new value in front, its later duplicates dropped, cut to three entries.
\<close>

definition mergeMru3 :: "'a list \<Rightarrow> 'a \<Rightarrow> 'a list" where
  "mergeMru3 history newValue =
     (if \<not> headDiffers history newValue then history
      else take 3 (newValue # filter (\<lambda>x. x \<noteq> newValue) history))"

section \<open>The simple authentication\<close>

definition authenticateCreatorSimple ::
  "world \<Rightarrow> jsstring \<Rightarrow> jsstring \<Rightarrow> store \<Rightarrow> (error + Creator) \<times> store" where
  "authenticateCreatorSimple w cid ip s =
     (case findUnique cid s of
        (None, s1) \<Rightarrow> (Inl CreatorNotFoundError, s1)
      | (Some creator, s1) \<Rightarrow>
          if headDiffers (ips creator) ip
          then update w (id_row creator) (\<lambda>r. r\<lparr>ips := mru3 ip (ips creator)\<rparr>) s1
          else (Inr creator, s1))"

section \<open>The authentication of the mod\<close>

text \<open>
  The fields of \<open>ModCreatorAuthorization\<close> and of \<open>CreatorContext\<close> that share a name with
  a column carry the suffix \<open>_auth\<close> or \<open>_ctx\<close>.
\<close>

record ModCreatorAuthorization =
  creatorName_auth :: "jsstring option"
  creatorId_auth :: jsstring
  creatorIdProvider_auth :: provider
  hwid_auth :: jsstring
  ip_auth :: jsstring
  minecraftAccessToken :: "jsstring option"
  minecraftPlayerUuid_auth :: "jsstring option"

record CreatorContext =
  effectiveCreatorId :: jsstring
  effectiveCreatorName :: "jsstring option"
  effectiveMinecraftPlayerUuid :: "jsstring option"
  creatorNameSlug_ctx :: "jsstring option"
  hwid_ctx :: jsstring
  ip_ctx :: jsstring
  creatorIdProvider_ctx :: provider

text \<open>
  \<open>verifyOfficialAccount\<close>: the profile service is asked, and its answer is checked. The
  result is the normalised UUID and the trimmed user name, if there is one.
\<close>

definition verifyOfficialAccount ::
  "world \<Rightarrow> jsstring \<Rightarrow> minecraft_auth_error + jsstring \<times> jsstring option" where
  "verifyOfficialAccount w accessToken =
     (case fetchProfile w accessToken of
        FetchFailed \<Rightarrow> Inl (MinecraftAuthRequestError None)
      | Response status body \<Rightarrow>
          if status = 401 \<or> status = 403 then Inl MinecraftAuthInvalidAccessTokenError
          else if \<not> (200 \<le> status \<and> status \<le> 299)
            then Inl (MinecraftAuthRequestError (Some status))
          else (case body of
                  None \<Rightarrow> Inl MinecraftAuthMalformedResponseError
                | Some JNotObject \<Rightarrow> Inl MinecraftAuthMalformedResponseError
                | Some (JObject idp namep) \<Rightarrow>
                    (case idp of
                       JString i \<Rightarrow>
                         if i = [] then Inl MinecraftAuthMalformedResponseError
                         else (case normalizeUuid i of
                                 Inl e \<Rightarrow> Inl e
                               | Inr uuidValue \<Rightarrow>
                                   Inr (uuidValue,
                                        case namep of
                                          JString n \<Rightarrow> if trim n \<noteq> [] then Some (trim n) else None
                                        | _ \<Rightarrow> None))
                     | _ \<Rightarrow> Inl MinecraftAuthMalformedResponseError)))"

text \<open>
  The \<open>switch\<close> on the provider: the effective Creator ID, the effective Creator Name and
  the effective Minecraft player UUID of a claim.
\<close>

definition effectiveClaim ::
  "world \<Rightarrow> ModCreatorAuthorization \<Rightarrow> error + jsstring \<times> jsstring option \<times> jsstring option" where
  "effectiveClaim w auth =
     (case creatorIdProvider_auth auth of
        MinecraftOfficial \<Rightarrow>
          (case minecraftAccessToken auth of
             None \<Rightarrow> Inl MissingMinecraftOfficialAccessTokenError
           | Some token \<Rightarrow>
               if trim token = [] then Inl MissingMinecraftOfficialAccessTokenError
               else (case verifyOfficialAccount w token of
                       Inl e \<Rightarrow> Inl (MinecraftOfficialAuthenticationError e)
                     | Inr (uuidValue, username) \<Rightarrow>
                         Inr (uuidValue,
                              if \<not> truthy (creatorName_auth auth) \<and> truthy username
                              then username else creatorName_auth auth,
                              Some uuidValue)))
      | MinecraftOffline \<Rightarrow>
          (case minecraftPlayerUuid_auth auth of
             None \<Rightarrow> Inl MissingMinecraftOfflinePlayerUuidError
           | Some raw \<Rightarrow>
               if trim raw = [] then Inl MissingMinecraftOfflinePlayerUuidError
               else (case normalizeUuid raw of
                       Inl e \<Rightarrow> Inl (InvalidMinecraftPlayerUuidError raw)
                     | Inr uuidValue \<Rightarrow>
                         Inr (creatorId_auth auth, creatorName_auth auth, Some uuidValue)))
      | Paradox \<Rightarrow> Inr (creatorId_auth auth, creatorName_auth auth, None)
      | Local \<Rightarrow> Inr (creatorId_auth auth, creatorName_auth auth, None)
      | OtherProvider p \<Rightarrow> Inl (UnsupportedCreatorIdProviderError (OtherProvider p)))"

text \<open>
  The context that \<open>createCreator\<close> and \<open>updateCreator\<close> receive: the effective claim with
  a valid Creator ID, and the slug of the effective name.
\<close>

definition resolveContext :: "world \<Rightarrow> ModCreatorAuthorization \<Rightarrow> error + CreatorContext" where
  "resolveContext w auth =
     (case effectiveClaim w auth of
        Inl e \<Rightarrow> Inl e
      | Inr (cid, name, mcUuid) \<Rightarrow>
          (case ensureValidCreatorId cid of
             Inl e \<Rightarrow> Inl e
           | Inr _ \<Rightarrow>
               Inr \<lparr>effectiveCreatorId = cid,
                    effectiveCreatorName = name,
                    effectiveMinecraftPlayerUuid = mcUuid,
                    creatorNameSlug_ctx = getCreatorNameSlug name,
                    hwid_ctx = hwid_auth auth,
                    ip_ctx = ip_auth auth,
                    creatorIdProvider_ctx = creatorIdProvider_auth auth\<rparr>))"

definition searchConditions :: "CreatorContext \<Rightarrow> condition list" where
  "searchConditions ctx =
     [CreatorIdIs (effectiveCreatorId ctx)]
     @ (case effectiveCreatorName ctx of
          None \<Rightarrow> []
        | Some n \<Rightarrow> if n = [] then []
                    else [CreatorNameIs n, CreatorNameSlugIs (creatorNameSlug_ctx ctx)])
     @ (case effectiveMinecraftPlayerUuid ctx of
          None \<Rightarrow> []
        | Some u \<Rightarrow> if u = [] then [] else [MinecraftPlayerUuidIs u])"

definition createCreator :: "world \<Rightarrow> CreatorContext \<Rightarrow> store \<Rightarrow> (error + Creator) \<times> store" where
  "createCreator w ctx s =
     (case validateCreatorName (effectiveCreatorName ctx) of
        Inl e \<Rightarrow> (Inl e, s)
      | Inr name \<Rightarrow>
          (case create w \<lparr>id_row = 0,
                           creatorId = effectiveCreatorId ctx,
                           creatorIdProvider = creatorIdProvider_ctx ctx,
                           creatorName = name,
                           creatorNameSlug = creatorNameSlug_ctx ctx,
                           minecraftPlayerUuid = effectiveMinecraftPlayerUuid ctx,
                           allowCreatorIdReset = False,
                           hwids = [hwid_ctx ctx],
                           ips = [ip_ctx ctx]\<rparr> s of
             (Inl e, s1) \<Rightarrow> (Inl e, s1)
           | (Inr newCreator, s1) \<Rightarrow>
               (Inr newCreator, backgroundUpdateCreatorNameTranslation newCreator s1)))"

definition isSameMinecraftPlayer :: "Creator \<Rightarrow> CreatorContext \<Rightarrow> bool" where
  "isSameMinecraftPlayer creator ctx \<longleftrightarrow>
     truthy (effectiveMinecraftPlayerUuid ctx)
     \<and> minecraftPlayerUuid creator = effectiveMinecraftPlayerUuid ctx"

definition modified :: "Creator \<Rightarrow> CreatorContext \<Rightarrow> bool" where
  "modified creator ctx \<longleftrightarrow>
     creatorName creator \<noteq> effectiveCreatorName ctx
     \<or> creatorNameSlug creator \<noteq> creatorNameSlug_ctx ctx
     \<or> headDiffers (hwids creator) (hwid_ctx ctx)
     \<or> headDiffers (ips creator) (ip_ctx ctx)
     \<or> creatorId creator \<noteq> effectiveCreatorId ctx
     \<or> minecraftPlayerUuid creator \<noteq> effectiveMinecraftPlayerUuid ctx
     \<or> creatorIdProvider creator \<noteq> creatorIdProvider_ctx ctx"

text \<open>
  \<open>updateCreator\<close> for the row \<open>creator\<close> that the query returned. The \<open>assert\<close> without a
  message carries its expression as the message here.
\<close>

definition updateCreator ::
  "world \<Rightarrow> Creator \<Rightarrow> CreatorContext \<Rightarrow> store \<Rightarrow> (error + Creator) \<times> store" where
  "updateCreator w creator ctx s =
     (if creatorId creator \<noteq> effectiveCreatorId ctx
         \<and> \<not> allowCreatorIdReset creator
         \<and> \<not> isSameMinecraftPlayer creator ctx
      then (case creatorName creator of
              None \<Rightarrow> (Inl (AssertionError ''creator.creatorName''), s)
            | Some n \<Rightarrow>
                if n = [] then (Inl (AssertionError ''creator.creatorName''), s)
                else (Inl (IncorrectCreatorIdError n), s))
      else if \<not> modified creator ctx then (Inr creator, s)
      else
        (case (if creatorName creator = effectiveCreatorName ctx
               then Inr (effectiveCreatorName ctx)
               else validateCreatorName (effectiveCreatorName ctx)) of
           Inl e \<Rightarrow> (Inl e, s)
         | Inr name \<Rightarrow>
             (case update w (id_row creator)
                     (\<lambda>r. r\<lparr>creatorName := name,
                            creatorNameSlug := creatorNameSlug_ctx ctx,
                            allowCreatorIdReset := False,
                            creatorId := effectiveCreatorId ctx,
                            creatorIdProvider := creatorIdProvider_ctx ctx,
                            minecraftPlayerUuid := effectiveMinecraftPlayerUuid ctx,
                            hwids := mru3 (hwid_ctx ctx) (hwids creator),
                            ips := mru3 (ip_ctx ctx) (ips creator)\<rparr>) s of
                (Inl e, s1) \<Rightarrow> (Inl e, s1)
              | (Inr updatedCreator, s1) \<Rightarrow>
                  (Inr updatedCreator,
                   if creatorName updatedCreator \<noteq> creatorName creator
                   then backgroundUpdateCreatorNameTranslation updatedCreator s1
                   else s1))))"

definition authenticateCreatorForModUnsafe ::
  "world \<Rightarrow> ModCreatorAuthorization \<Rightarrow> store \<Rightarrow> (error + Creator) \<times> store" where
  "authenticateCreatorForModUnsafe w auth s =
     (case resolveContext w auth of
        Inl e \<Rightarrow> (Inl e, s)
      | Inr ctx \<Rightarrow>
          (case findMany (searchConditions ctx) s of
             (creators, s1) \<Rightarrow>
               if length creators > 1 then
                 (if length creators \<noteq> 2
                  then (Inl (AssertionError
                          ''Only two creators are returned, otherwise there are non-unique Creator Names.''), s1)
                  else (case effectiveCreatorName ctx of
                          None \<Rightarrow> (Inl (AssertionError
                                     ''Creator Name can only be non-null if >1 creators are found.''), s1)
                        | Some n \<Rightarrow>
                            if n = []
                            then (Inl (AssertionError
                                     ''Creator Name can only be non-null if >1 creators are found.''), s1)
                            else (Inl (IncorrectCreatorIdError n), s1)))
               else (case creators of
                       [] \<Rightarrow> createCreator w ctx s1
                     | creator # _ \<Rightarrow> updateCreator w creator ctx s1)))"

text \<open>
  The wrapper: one run, and a second one when the first failed with the code \<open>P2002\<close> of
  the store. Each run meets its own \<open>world\<close>.
\<close>

definition authenticateCreatorForMod ::
  "world \<Rightarrow> world \<Rightarrow> ModCreatorAuthorization \<Rightarrow> store \<Rightarrow> (error + Creator) \<times> store" where
  "authenticateCreatorForMod w1 w2 auth s =
     (case authenticateCreatorForModUnsafe w1 auth s of
        (Inr creator, s1) \<Rightarrow> (Inr creator, s1)
      | (Inl e, s1) \<Rightarrow>
          if e = PrismaError ''P2002'' then authenticateCreatorForModUnsafe w2 auth s1
          else (Inl e, s1))"

datatype CreatorAuthorization =
    Simple jsstring jsstring
  | Mod ModCreatorAuthorization

fun authenticateCreator ::
  "world \<Rightarrow> world \<Rightarrow> CreatorAuthorization \<Rightarrow> store \<Rightarrow> (error + Creator) \<times> store" where
  "authenticateCreator w1 w2 (Simple cid ip) s =
     (case ensureValidCreatorId cid of
        Inl e \<Rightarrow> (Inl e, s)
      | Inr _ \<Rightarrow> authenticateCreatorSimple w1 cid ip s)"
| "authenticateCreator w1 w2 (Mod auth) s = authenticateCreatorForMod w1 w2 auth s"

text \<open>A run that meets no other request.\<close>

definition alone :: "(jsstring \<Rightarrow> fetch_outcome) \<Rightarrow> world" where
  "alone f = \<lparr>fetchProfile = f, concurrent = (\<lambda>rs. rs)\<rparr>"

section \<open>Example accounts and claims\<close>

text \<open>Creator IDs: well-formed UUIDs of version 4.\<close>

definition idA :: jsstring where
  "idA = js ''11111111-1111-4111-8111-111111111111''"

definition idB :: jsstring where
  "idB = js ''22222222-2222-4222-8222-222222222222''"

definition idC :: jsstring where
  "idC = js ''33333333-3333-4333-8333-333333333333''"

definition idD :: jsstring where
  "idD = js ''44444444-4444-4444-8444-444444444444''"

definition steveUuid :: jsstring where
  "steveUuid = js ''069a79f4-44e9-4726-a5be-fca90e38aaf5''"

text \<open>
  Accounts: \<open>bob\<close> and \<open>carol\<close> with a name each; \<open>bobby\<close>, whose name has the slug of
  \<open>bob\<close>; \<open>steve\<close>, linked to a Minecraft player and without a name; \<open>anon\<close>, without a
  name; \<open>bobSmith\<close>, as the claim of the name \<open>"Bob  Smith"\<close> creates it in an empty store.
\<close>

definition bob :: Creator where
  "bob = \<lparr>id_row = 1, creatorId = idA, creatorIdProvider = Paradox,
          creatorName = Some (js ''Bob''), creatorNameSlug = Some (js ''bob''),
          minecraftPlayerUuid = None, allowCreatorIdReset = False,
          hwids = [js ''hw1''], ips = [js ''10.0.0.1'']\<rparr>"

definition carol :: Creator where
  "carol = \<lparr>id_row = 2, creatorId = idB, creatorIdProvider = Paradox,
          creatorName = Some (js ''Carol''), creatorNameSlug = Some (js ''carol''),
          minecraftPlayerUuid = None, allowCreatorIdReset = False,
          hwids = [js ''hw1''], ips = [js ''10.0.0.1'']\<rparr>"

definition bobby :: Creator where
  "bobby = \<lparr>id_row = 3, creatorId = idC, creatorIdProvider = Local,
          creatorName = Some (js ''BOB''), creatorNameSlug = Some (js ''bob''),
          minecraftPlayerUuid = None, allowCreatorIdReset = False,
          hwids = [js ''hw3''], ips = [js ''10.0.0.3'']\<rparr>"

definition steve :: Creator where
  "steve = \<lparr>id_row = 4, creatorId = idD, creatorIdProvider = MinecraftOffline,
          creatorName = None, creatorNameSlug = None,
          minecraftPlayerUuid = Some steveUuid, allowCreatorIdReset = False,
          hwids = [js ''hw4''], ips = [js ''10.0.0.4'']\<rparr>"

definition anon :: Creator where
  "anon = \<lparr>id_row = 5, creatorId = idA, creatorIdProvider = Local,
          creatorName = None, creatorNameSlug = None,
          minecraftPlayerUuid = None, allowCreatorIdReset = False,
          hwids = [js ''hw5''], ips = [js ''10.0.0.5'']\<rparr>"

definition bobSmith :: Creator where
  "bobSmith = \<lparr>id_row = 1, creatorId = idB, creatorIdProvider = Paradox,
          creatorName = Some (js ''Bob Smith''), creatorNameSlug = Some (js ''bob-smith''),
          minecraftPlayerUuid = None, allowCreatorIdReset = False,
          hwids = [js ''hw1''], ips = [js ''10.0.0.1'']\<rparr>"

definition storeOf :: "Creator list \<Rightarrow> store" where
  "storeOf rs = \<lparr>rows = rs, reads = 0, writes = 0, translationJobs = []\<rparr>"

text \<open>
  Worlds: \<open>quiet\<close>, where the profile service cannot be reached and no other request
  writes; \<open>racing others\<close>, where other requests turn the table into \<open>others\<close> of it;
  \<open>profileOfBob\<close>, where the profile service answers with the UUID \<open>steveUuid\<close> and the
  user name \<open>Bob\<close>.
\<close>

definition quiet :: world where
  "quiet = alone (\<lambda>token. FetchFailed)"

definition racing :: "(Creator list \<Rightarrow> Creator list) \<Rightarrow> world" where
  "racing others = \<lparr>fetchProfile = (\<lambda>token. FetchFailed), concurrent = others\<rparr>"

definition profileOfBob :: world where
  "profileOfBob =
     \<lparr>fetchProfile = (\<lambda>token. Response 200 (Some (JObject (JString steveUuid) (JString (js ''Bob''))))),
      concurrent = (\<lambda>rs. rs)\<rparr>"

text \<open>
  Claims: \<open>claimOf\<close> for the providers without credentials, with the context that
  \<open>resolveContext\<close> gives for the provider \<open>paradox\<close>; a claim of the offline and one of
  the official Minecraft provider, both without a name; a name of 26 code units with the
  slug of \<open>bob\<close>.
\<close>

definition claimOf ::
  "provider \<Rightarrow> jsstring \<Rightarrow> jsstring option \<Rightarrow> jsstring \<Rightarrow> jsstring \<Rightarrow> ModCreatorAuthorization" where
  "claimOf p cid name hwid ip =
     \<lparr>creatorName_auth = name, creatorId_auth = cid, creatorIdProvider_auth = p,
      hwid_auth = hwid, ip_auth = ip, minecraftAccessToken = None,
      minecraftPlayerUuid_auth = None\<rparr>"

definition contextOf :: "jsstring \<Rightarrow> jsstring option \<Rightarrow> jsstring \<Rightarrow> jsstring \<Rightarrow> CreatorContext" where
  "contextOf cid name hwid ip =
     \<lparr>effectiveCreatorId = cid, effectiveCreatorName = name,
      effectiveMinecraftPlayerUuid = None, creatorNameSlug_ctx = getCreatorNameSlug name,
      hwid_ctx = hwid, ip_ctx = ip, creatorIdProvider_ctx = Paradox\<rparr>"

definition offlineClaim :: ModCreatorAuthorization where
  "offlineClaim =
     \<lparr>creatorName_auth = None, creatorId_auth = idB, creatorIdProvider_auth = MinecraftOffline,
      hwid_auth = js ''hw1'', ip_auth = js ''10.0.0.1'', minecraftAccessToken = None,
      minecraftPlayerUuid_auth = Some (js ''069A79F444E94726A5BEFCA90E38AAF5'')\<rparr>"

definition officialClaim :: ModCreatorAuthorization where
  "officialClaim =
     \<lparr>creatorName_auth = None, creatorId_auth = idB, creatorIdProvider_auth = MinecraftOfficial,
      hwid_auth = js ''hw1'', ip_auth = js ''10.0.0.1'', minecraftAccessToken = Some (js ''token''),
      minecraftPlayerUuid_auth = None\<rparr>"

definition longName :: jsstring where
  "longName = js ''Bob-----------------------''"

section \<open>Unfolding the model\<close>

lemmas string_defs = js_def hyphen_def space_def apostrophe_def secondLiteral_def isHyphen_def
  isWhiteSpace_def trim_def truthy_def trimHyphens_def toLowerCaseUnit_def
  toLowerCase_def getCreatorNameSlug_def validateCreatorName_def isDigit_def isHexDigit_def
  fits_def uuid_validate_def uuid_version_is_4_def ensureValidCreatorId_def hyphenated_def
  normalizeUuid_def

lemmas store_defs = findMany_def findUnique_def freshId_def create_def update_def
  backgroundUpdateCreatorNameTranslation_def arrayFromSet_def mru3_def headDiffers_def
  mergeMru3_def Let_def

lemmas auth_defs = authenticateCreatorSimple_def verifyOfficialAccount_def effectiveClaim_def
  resolveContext_def searchConditions_def createCreator_def isSameMinecraftPlayer_def
  modified_def updateCreator_def authenticateCreatorForModUnsafe_def
  authenticateCreatorForMod_def alone_def

lemmas example_defs = idA_def idB_def idC_def idD_def bob_def carol_def bobby_def steveUuid_def
  steve_def offlineClaim_def anon_def longName_def bobSmith_def
  profileOfBob_def officialClaim_def storeOf_def claimOf_def quiet_def racing_def contextOf_def

section \<open>UUID normalisation\<close>

lemma replaceAllEmpty_single: "replaceAllEmpty [h] s = filter (\<lambda>c. c \<noteq> h) s"
  by (induction s) (auto simp: drop_Suc)

lemma toLowerCaseUnit_hyphen: "toLowerCaseUnit c = hyphen \<longleftrightarrow> c = hyphen"
  unfolding toLowerCaseUnit_def hyphen_def by arith

lemma toLowerCaseUnit_idem: "toLowerCaseUnit (toLowerCaseUnit c) = toLowerCaseUnit c"
  unfolding toLowerCaseUnit_def by arith

lemma toLowerCase_idem: "toLowerCase (toLowerCase s) = toLowerCase s"
  by (simp add: toLowerCase_def toLowerCaseUnit_idem)

lemma isHexDigit_unlower: "isHexDigit (toLowerCaseUnit c) \<Longrightarrow> isHexDigit c"
  unfolding isHexDigit_def isDigit_def toLowerCaseUnit_def by arith

lemma isHexDigit_not_hyphen: "isHexDigit c \<Longrightarrow> c \<noteq> hyphen"
  unfolding isHexDigit_def isDigit_def hyphen_def by arith

lemma fits_lower: "fits t c \<Longrightarrow> fits t (toLowerCaseUnit c)"
  by (auto simp: fits_def isHexDigit_def isDigit_def toLowerCaseUnit_def hyphen_def split: if_splits)

lemma fits_hex_or_hyphen: "fits t c \<Longrightarrow> isHexDigit c \<or> c = hyphen"
  by (auto simp: fits_def isHexDigit_def isDigit_def hyphen_def split: if_splits)

lemma fits_canonical:
  "fits t c \<Longrightarrow> toLowerCaseUnit c = c
   \<Longrightarrow> fitsCanonical (if t \<in> {CHR ''v'', CHR ''r''} then CHR ''h'' else t) c"
  by (auto simp: fits_def fitsCanonical_def isHexDigit_def isLowerHexDigit_def isDigit_def
      toLowerCaseUnit_def hyphen_def split: if_splits)

lemma uuid_validate_chars:
  assumes "uuid_validate s" and "c \<in> set s"
  shows "isHexDigit c \<or> c = hyphen"
proof -
  from assms(1) consider
      (shape) "list_all2 fits ''hhhhhhhh-hhhh-vhhh-rhhh-hhhhhhhhhhhh'' s"
    | (nil) "s = js ''00000000-0000-0000-0000-000000000000''"
    | (max) "toLowerCase s = js ''ffffffff-ffff-ffff-ffff-ffffffffffff''"
    unfolding uuid_validate_def by blast
  then show ?thesis
  proof cases
    case shape
    from assms(2) obtain i where "i < length s" "s ! i = c"
      by (auto simp: in_set_conv_nth)
    with shape have "fits (''hhhhhhhh-hhhh-vhhh-rhhh-hhhhhhhhhhhh'' ! i) c"
      by (auto simp: list_all2_conv_all_nth)
    then show ?thesis by (rule fits_hex_or_hyphen)
  next
    case nil
    with assms(2) show ?thesis
      by (auto simp: js_def isHexDigit_def isDigit_def hyphen_def)
  next
    case max
    from assms(2) have "toLowerCaseUnit c \<in> set (toLowerCase s)"
      by (simp add: toLowerCase_def)
    with max have "isHexDigit (toLowerCaseUnit c) \<or> toLowerCaseUnit c = hyphen"
      by (auto simp: js_def isHexDigit_def isDigit_def hyphen_def)
    then show ?thesis
      by (auto dest: isHexDigit_unlower simp: toLowerCaseUnit_hyphen)
  qed
qed

lemma uuid_validate_lower: "uuid_validate s \<Longrightarrow> uuid_validate (toLowerCase s)"
proof -
  assume v: "uuid_validate s"
  have shape: "list_all2 fits t s \<Longrightarrow> list_all2 fits t (toLowerCase s)" for t
    unfolding toLowerCase_def list_all2_map2
    by (erule list_all2_mono) (rule fits_lower)
  have nil: "toLowerCase (js ''00000000-0000-0000-0000-000000000000'')
             = js ''00000000-0000-0000-0000-000000000000''"
    by (simp add: js_def toLowerCase_def toLowerCaseUnit_def)
  from v show ?thesis
    unfolding uuid_validate_def using shape nil by (auto simp: toLowerCase_idem)
qed

lemma toLowerCase_hyphenated: "toLowerCase (hyphenated c) = hyphenated (toLowerCase c)"
  by (simp add: toLowerCase_def hyphenated_def take_map drop_map toLowerCaseUnit_def hyphen_def)

lemma segments: "take 8 c @ take 4 (drop 8 c) @ take 4 (drop 12 c) @ take 4 (drop 16 c) @ drop 20 c = c"
proof -
  have "take 4 (drop 16 c) @ drop 20 c = drop 16 c"
    using append_take_drop_id [of 4 "drop 16 c"] by simp
  moreover have "take 4 (drop 12 c) @ drop 16 c = drop 12 c"
    using append_take_drop_id [of 4 "drop 12 c"] by simp
  moreover have "take 4 (drop 8 c) @ drop 12 c = drop 8 c"
    using append_take_drop_id [of 4 "drop 8 c"] by simp
  ultimately show ?thesis by simp
qed

lemma filter_hyphenated:
  "filter (\<lambda>x. x \<noteq> hyphen) (hyphenated c) = filter (\<lambda>x. x \<noteq> hyphen) c"
proof -
  have "filter (\<lambda>x. x \<noteq> hyphen) (hyphenated c)
        = filter (\<lambda>x. x \<noteq> hyphen)
            (take 8 c @ take 4 (drop 8 c) @ take 4 (drop 12 c) @ take 4 (drop 16 c) @ drop 20 c)"
    by (simp add: hyphenated_def)
  then show ?thesis by (simp only: segments)
qed

lemma set_hyphenated: "set c \<subseteq> set (hyphenated c)"
proof -
  have "set (take 8 c @ take 4 (drop 8 c) @ take 4 (drop 12 c) @ take 4 (drop 16 c) @ drop 20 c)
        \<subseteq> set (hyphenated c)"
    by (auto simp: hyphenated_def)
  then show ?thesis by (simp only: segments)
qed

lemma canonical_of_valid:
  assumes v: "uuid_validate u" and low: "toLowerCase u = u"
  shows "canonicalUuid u"
proof -
  define T where "T = ''hhhhhhhh-hhhh-vhhh-rhhh-hhhhhhhhhhhh''"
  define f where "f = (\<lambda>t. if t \<in> {CHR ''v'', CHR ''r''} then CHR ''h'' else t)"
  have units: "toLowerCaseUnit (u ! i) = u ! i" if "i < length u" for i
    using low that by (metis nth_map toLowerCase_def)
  have tmpl: "''hhhhhhhh-hhhh-hhhh-hhhh-hhhhhhhhhhhh'' = map f T"
    by (simp add: T_def f_def)
  from v consider
      (shape) "list_all2 fits T u"
    | (nil) "u = js ''00000000-0000-0000-0000-000000000000''"
    | (max) "toLowerCase u = js ''ffffffff-ffff-ffff-ffff-ffffffffffff''"
    unfolding uuid_validate_def T_def by blast
  then show ?thesis
  proof cases
    case shape
    have "list_all2 (\<lambda>t c. fitsCanonical (f t) c) T u"
    proof (rule list_all2_all_nthI)
      show "length T = length u" using shape by (rule list_all2_lengthD)
    next
      fix n assume n: "n < length T"
      then have "fits (T ! n) (u ! n)" using shape by (simp add: list_all2_nthD)
      moreover have "toLowerCaseUnit (u ! n) = u ! n"
        using n list_all2_lengthD [OF shape] by (simp add: units)
      ultimately show "fitsCanonical (f (T ! n)) (u ! n)"
        unfolding f_def by (rule fits_canonical)
    qed
    then show ?thesis
      unfolding canonicalUuid_def tmpl by (simp only: list_all2_map1)
  next
    case nil
    then show ?thesis
      by (simp add: canonicalUuid_def fitsCanonical_def js_def isLowerHexDigit_def isDigit_def hyphen_def)
  next
    case max
    with low have "u = js ''ffffffff-ffff-ffff-ffff-ffffffffffff''" by simp
    then show ?thesis
      by (simp add: canonicalUuid_def fitsCanonical_def js_def isLowerHexDigit_def isDigit_def hyphen_def)
  qed
qed


lemma normalizeUuid_Inr:
  "normalizeUuid input = Inr u \<longleftrightarrow>
     length (replaceAllEmpty [hyphen] input) = 32
     \<and> uuid_validate (hyphenated (toLowerCase (replaceAllEmpty [hyphen] input)))
     \<and> u = hyphenated (toLowerCase (replaceAllEmpty [hyphen] input))"
  by (auto simp: normalizeUuid_def Let_def toLowerCase_def)

lemma normalizeUuid_Inl:
  "normalizeUuid input = Inl e \<longleftrightarrow>
     \<not> (length (replaceAllEmpty [hyphen] input) = 32
        \<and> uuid_validate (hyphenated (toLowerCase (replaceAllEmpty [hyphen] input))))
     \<and> e = MinecraftAuthInvalidUuidError input"
  by (auto simp: normalizeUuid_def Let_def toLowerCase_def)

lemma valid_compact_hex:
  assumes "uuid_validate (hyphenated (toLowerCase (replaceAllEmpty [hyphen] input)))"
  shows "list_all isHexDigit (replaceAllEmpty [hyphen] input)"
proof -
  have "isHexDigit c" if c: "c \<in> set (replaceAllEmpty [hyphen] input)" for c
  proof -
    from c have "c \<noteq> hyphen" by (simp add: replaceAllEmpty_single)
    then have nh: "toLowerCaseUnit c \<noteq> hyphen" by (simp add: toLowerCaseUnit_hyphen)
    from c have "toLowerCaseUnit c \<in> set (toLowerCase (replaceAllEmpty [hyphen] input))"
      by (simp add: toLowerCase_def)
    then have "toLowerCaseUnit c \<in> set (hyphenated (toLowerCase (replaceAllEmpty [hyphen] input)))"
      using set_hyphenated by blast
    with assms have "isHexDigit (toLowerCaseUnit c) \<or> toLowerCaseUnit c = hyphen"
      by (rule uuid_validate_chars)
    with nh show ?thesis by (auto dest: isHexDigit_unlower)
  qed
  then show ?thesis by (simp add: list_all_iff)
qed

lemma strip_bare:
  assumes "list_all isHexDigit bare"
  shows "replaceAllEmpty [hyphen] bare = bare"
    and "replaceAllEmpty [hyphen] (hyphenated bare) = bare"
proof -
  have "filter (\<lambda>x. x \<noteq> hyphen) bare = bare"
    using assms by (auto simp: list_all_iff dest: isHexDigit_not_hyphen intro: filter_True)
  then show "replaceAllEmpty [hyphen] bare = bare"
    and "replaceAllEmpty [hyphen] (hyphenated bare) = bare"
    by (simp_all add: replaceAllEmpty_single filter_hyphenated)
qed

text \<open>
  Claim C7. Whenever \<open>normalizeUuid\<close> returns, the result is the hyphenated lower-case form
  of the input without its hyphens, it validates as a UUID, it has the canonical shape
  8-4-4-4-12 of lower-case hexadecimal digits, and every other input with the same
  hyphen-stripped form gives the same result. For a bare form of 32 hexadecimal digits
  whose hyphenated form is a well-formed UUID, the bare and the hyphenated form are both
  accepted, with the same result. Every input whose hyphen-stripped form is not exactly
  32 hexadecimal digits fails with \<open>MinecraftAuthInvalidUuidError\<close>, which carries the
  input.
\<close>

theorem normalizeUuid_canonical:
  "(normalizeUuid input = Inr u \<longrightarrow>
      u = hyphenated (toLowerCase (replaceAllEmpty [hyphen] input))
      \<and> uuid_validate u \<and> canonicalUuid u
      \<and> (replaceAllEmpty [hyphen] other = replaceAllEmpty [hyphen] input
           \<longrightarrow> normalizeUuid other = Inr u))
   \<and> (length bare = 32 \<and> list_all isHexDigit bare \<and> uuid_validate (hyphenated bare) \<longrightarrow>
        normalizeUuid bare = Inr (hyphenated (toLowerCase bare))
        \<and> normalizeUuid (hyphenated bare) = Inr (hyphenated (toLowerCase bare)))
   \<and> (\<not> (length (replaceAllEmpty [hyphen] input) = 32
          \<and> list_all isHexDigit (replaceAllEmpty [hyphen] input))
        \<longrightarrow> normalizeUuid input = Inl (MinecraftAuthInvalidUuidError input))"
proof (intro conjI impI)
  assume r: "normalizeUuid input = Inr u"
  then show u: "u = hyphenated (toLowerCase (replaceAllEmpty [hyphen] input))"
    and v: "uuid_validate u"
    by (simp_all add: normalizeUuid_Inr)
  have "toLowerCase u = u"
    unfolding u by (simp add: toLowerCase_hyphenated toLowerCase_idem)
  with v show "canonicalUuid u" by (rule canonical_of_valid)
  assume "replaceAllEmpty [hyphen] other = replaceAllEmpty [hyphen] input"
  with r show "normalizeUuid other = Inr u" by (simp add: normalizeUuid_Inr)
next
  assume b: "length bare = 32 \<and> list_all isHexDigit bare \<and> uuid_validate (hyphenated bare)"
  then have "uuid_validate (hyphenated (toLowerCase bare))"
    using uuid_validate_lower [of "hyphenated bare"] by (simp add: toLowerCase_hyphenated)
  with b show "normalizeUuid bare = Inr (hyphenated (toLowerCase bare))"
    and "normalizeUuid (hyphenated bare) = Inr (hyphenated (toLowerCase bare))"
    by (simp_all add: normalizeUuid_Inr strip_bare)
next
  assume n: "\<not> (length (replaceAllEmpty [hyphen] input) = 32
          \<and> list_all isHexDigit (replaceAllEmpty [hyphen] input))"
  show "normalizeUuid input = Inl (MinecraftAuthInvalidUuidError input)"
  proof (cases "normalizeUuid input")
    case (Inl e)
    then show ?thesis by (simp add: normalizeUuid_Inl)
  next
    case (Inr u)
    then have "length (replaceAllEmpty [hyphen] input) = 32"
      and "list_all isHexDigit (replaceAllEmpty [hyphen] input)"
      by (simp_all add: normalizeUuid_Inr valid_compact_hex)
    with n show ?thesis by simp
  qed
qed

theorem normalizeUuid_canonical_witness:
  "normalizeUuid (js ''069A79F4-44E9-4726-A5BE-FCA90E38AAF5'')
     = Inr (js ''069a79f4-44e9-4726-a5be-fca90e38aaf5'')
   \<and> replaceAllEmpty [hyphen] (js ''069A79F444E94726A5BEFCA90E38AAF5'')
     = replaceAllEmpty [hyphen] (js ''069A79F4-44E9-4726-A5BE-FCA90E38AAF5'')
   \<and> normalizeUuid (js ''069A79F444E94726A5BEFCA90E38AAF5'')
     = Inr (js ''069a79f4-44e9-4726-a5be-fca90e38aaf5'')
   \<and> canonicalUuid (js ''069a79f4-44e9-4726-a5be-fca90e38aaf5'')
   \<and> length (js ''069A79F444E94726A5BEFCA90E38AAF5'') = 32
   \<and> list_all isHexDigit (js ''069A79F444E94726A5BEFCA90E38AAF5'')
   \<and> uuid_validate (hyphenated (js ''069A79F444E94726A5BEFCA90E38AAF5''))
   \<and> \<not> (length (replaceAllEmpty [hyphen] (js ''069a79f4-44e9'')) = 32
        \<and> list_all isHexDigit (replaceAllEmpty [hyphen] (js ''069a79f4-44e9'')))
   \<and> normalizeUuid (js ''069a79f4-44e9'') = Inl (MinecraftAuthInvalidUuidError (js ''069a79f4-44e9''))"
  using normalizeUuid_canonical [of "js ''069A79F4-44E9-4726-A5BE-FCA90E38AAF5''"
      "js ''069a79f4-44e9-4726-a5be-fca90e38aaf5''" "js ''069A79F444E94726A5BEFCA90E38AAF5''"
      "js ''069A79F444E94726A5BEFCA90E38AAF5''"]
    normalizeUuid_canonical [of "js ''069a79f4-44e9''"]
  by (simp add: normalizeUuid_def js_def hyphen_def toLowerCase_def toLowerCaseUnit_def
      hyphenated_def uuid_validate_def fits_def isHexDigit_def isDigit_def canonicalUuid_def
      fitsCanonical_def isLowerHexDigit_def)

section \<open>Display names and slugs\<close>

text \<open>
  Claim C6. \<open>validateCreatorName\<close> is documented to trim the start and the end of the name
  and to bound its length. On \<open>"  Bob  "\<close> it returns \<open>" Bob "\<close>: each outer run of spaces
  is replaced by one space and stays. The length is tested before the runs are replaced:
  the 26 code units of \<open>A\<close>, 24 spaces and \<open>B\<close> are rejected although the normalised
  name \<open>"A B"\<close> has three.
\<close>

theorem validateCreatorName_not_trimmed:
  "validateCreatorName (Some (js ''  Bob  '')) = Inr (Some (js '' Bob ''))
   \<and> validateCreatorName (Some (js ''A                        B''))
       = Inl (InvalidCreatorNameError (js ''A                        B''))
   \<and> length (js ''A                        B'') = 26
   \<and> replaceRuns [isWhiteSpace] space (js ''A                        B'') = js ''A B''"
  by (simp add: validateCreatorName_def js_def trim_def isWhiteSpace_def space_def)

text \<open>
  Claim C8. \<open>getCreatorNameSlug\<close> replaces a run of white space by one hyphen and a run of
  hyphens by one hyphen, each on its own: the name \<open>"a - b"\<close>, where a space, a hyphen
  and a space follow each other, gets the slug \<open>"a---b"\<close>, not \<open>"a-b"\<close>. The typographic
  apostrophe U+2019 is not among the literals that are removed and stays in the slug.
  The slug of \<open>"O'Brien  Town"\<close> is \<open>"obrien-town"\<close>.
\<close>

theorem getCreatorNameSlug_mixed_run:
  "getCreatorNameSlug (Some (js ''a - b'')) = Some (js ''a---b'')
   \<and> getCreatorNameSlug (Some [0x4F, 0x2019, 0x42]) = Some [0x6F, 0x2019, 0x62]
   \<and> getCreatorNameSlug (Some (js ''O'Brien  Town'')) = Some (js ''obrien-town'')"
  by (simp add: getCreatorNameSlug_def js_def trim_def isWhiteSpace_def secondLiteral_def
      apostrophe_def hyphen_def isHyphen_def trimHyphens_def toLowerCase_def toLowerCaseUnit_def)

section \<open>Histories and store operations\<close>







lemma update_Inr:
  assumes "update w i f s = (Inr c', s')"
  shows "\<exists>r. find (\<lambda>r. id_row r = i) (concurrent w (rows s)) = Some r \<and> c' = f r"
    and "c' \<in> set (rows s')"
    and "writes s' = Suc (writes s)"
    and "reads s' = reads s"
    and "translationJobs s' = translationJobs s"
proof -
  from assms obtain r where r: "find (\<lambda>r. id_row r = i) (concurrent w (rows s)) = Some r"
    and c': "c' = f r"
    and s': "s' = s\<lparr>writes := Suc (writes s),
                    rows := map (\<lambda>x. if id_row x = i then f r else x) (concurrent w (rows s))\<rparr>"
    by (auto simp: update_def Let_def split: option.splits if_splits)
  from r have "r \<in> set (concurrent w (rows s))" "id_row r = i"
    by (auto simp: find_Some_iff)
  then have "f r \<in> set (map (\<lambda>x. if id_row x = i then f r else x) (concurrent w (rows s)))"
    by force
  with r c' s' show "\<exists>r. find (\<lambda>r. id_row r = i) (concurrent w (rows s)) = Some r \<and> c' = f r"
    and "c' \<in> set (rows s')" and "writes s' = Suc (writes s)" and "reads s' = reads s"
    and "translationJobs s' = translationJobs s"
    by simp_all
qed


lemma updateCreator_Inr:
  assumes "updateCreator w c ctx s = (Inr c', s')"
  shows "\<not> (creatorId c \<noteq> effectiveCreatorId ctx \<and> \<not> allowCreatorIdReset c
            \<and> \<not> isSameMinecraftPlayer c ctx)"
    and "\<not> modified c ctx \<Longrightarrow> c' = c \<and> s' = s"
    and "modified c ctx \<Longrightarrow>
           creatorId c' = effectiveCreatorId ctx
         \<and> creatorIdProvider c' = creatorIdProvider_ctx ctx
         \<and> creatorNameSlug c' = creatorNameSlug_ctx ctx
         \<and> minecraftPlayerUuid c' = effectiveMinecraftPlayerUuid ctx
         \<and> \<not> allowCreatorIdReset c'
         \<and> hwids c' = mru3 (hwid_ctx ctx) (hwids c)
         \<and> ips c' = mru3 (ip_ctx ctx) (ips c)
         \<and> c' \<in> set (rows s')
         \<and> writes s' = Suc (writes s)
         \<and> reads s' = reads s"
proof -
  show own: "\<not> (creatorId c \<noteq> effectiveCreatorId ctx \<and> \<not> allowCreatorIdReset c
            \<and> \<not> isSameMinecraftPlayer c ctx)"
    using assms by (auto simp: updateCreator_def split: option.splits if_splits)
  show "\<not> modified c ctx \<Longrightarrow> c' = c \<and> s' = s"
    using assms own by (auto simp: updateCreator_def)
  assume m: "modified c ctx"
  with assms own obtain name s1 where
    u: "update w (id_row c)
          (\<lambda>r. r\<lparr>creatorName := name,
                 creatorNameSlug := creatorNameSlug_ctx ctx,
                 allowCreatorIdReset := False,
                 creatorId := effectiveCreatorId ctx,
                 creatorIdProvider := creatorIdProvider_ctx ctx,
                 minecraftPlayerUuid := effectiveMinecraftPlayerUuid ctx,
                 hwids := mru3 (hwid_ctx ctx) (hwids c),
                 ips := mru3 (ip_ctx ctx) (ips c)\<rparr>) s = (Inr c', s1)"
    and s': "s' = s1 \<or> s' = backgroundUpdateCreatorNameTranslation c' s1"
    unfolding updateCreator_def
    by (auto split: sum.splits prod.splits if_splits)
  from update_Inr [OF u] s'
  show "creatorId c' = effectiveCreatorId ctx
         \<and> creatorIdProvider c' = creatorIdProvider_ctx ctx
         \<and> creatorNameSlug c' = creatorNameSlug_ctx ctx
         \<and> minecraftPlayerUuid c' = effectiveMinecraftPlayerUuid ctx
         \<and> \<not> allowCreatorIdReset c'
         \<and> hwids c' = mru3 (hwid_ctx ctx) (hwids c)
         \<and> ips c' = mru3 (ip_ctx ctx) (ips c)
         \<and> c' \<in> set (rows s')
         \<and> writes s' = Suc (writes s)
         \<and> reads s' = reads s"
    by (auto simp: backgroundUpdateCreatorNameTranslation_def)
qed





section \<open>The runs of the authentication\<close>

lemma findMany_snd: "snd (findMany conds s) = s\<lparr>reads := Suc (reads s)\<rparr>"
  by (simp add: findMany_def)

lemma findMany_pair: "findMany conds s = (fst (findMany conds s), s\<lparr>reads := Suc (reads s)\<rparr>)"
  by (simp add: findMany_def)

lemma unsafe_unresolved:
  "resolveContext w auth = Inl e \<Longrightarrow> authenticateCreatorForModUnsafe w auth s = (Inl e, s)"
  by (simp add: authenticateCreatorForModUnsafe_def)

lemma unsafe_two:
  assumes "resolveContext w auth = Inr ctx"
    and "length (fst (findMany (searchConditions ctx) s)) = 2"
    and "effectiveCreatorName ctx = Some n" and "n \<noteq> []"
  shows "authenticateCreatorForModUnsafe w auth s
         = (Inl (IncorrectCreatorIdError n), s\<lparr>reads := Suc (reads s)\<rparr>)"
  using assms
  by (subst authenticateCreatorForModUnsafe_def, subst findMany_pair) simp

lemma unsafe_many:
  assumes "resolveContext w auth = Inr ctx"
    and "2 < length (fst (findMany (searchConditions ctx) s))
         \<or> length (fst (findMany (searchConditions ctx) s)) = 2
           \<and> \<not> truthy (effectiveCreatorName ctx)"
  shows "\<exists>m. authenticateCreatorForModUnsafe w auth s
              = (Inl (AssertionError m), s\<lparr>reads := Suc (reads s)\<rparr>)"
  using assms
  by (subst authenticateCreatorForModUnsafe_def, subst findMany_pair)
     (auto simp: truthy_def split: option.splits)

lemma unsafe_one:
  assumes "resolveContext w auth = Inr ctx"
    and "fst (findMany (searchConditions ctx) s) = [c]"
  shows "authenticateCreatorForModUnsafe w auth s
         = updateCreator w c ctx (s\<lparr>reads := Suc (reads s)\<rparr>)"
  using assms
  by (subst authenticateCreatorForModUnsafe_def, subst findMany_pair) simp

lemma unsafe_none:
  assumes "resolveContext w auth = Inr ctx"
    and "fst (findMany (searchConditions ctx) s) = []"
  shows "authenticateCreatorForModUnsafe w auth s
         = createCreator w ctx (s\<lparr>reads := Suc (reads s)\<rparr>)"
  using assms
  by (subst authenticateCreatorForModUnsafe_def, subst findMany_pair) simp

lemma wrapper_first:
  assumes "authenticateCreatorForModUnsafe w1 auth s = (r, s1)"
    and "r \<noteq> Inl (PrismaError ''P2002'')"
  shows "authenticateCreatorForMod w1 w2 auth s = (r, s1)"
  using assms by (cases r) (simp_all add: authenticateCreatorForMod_def)

lemma wrapper_retry:
  assumes "authenticateCreatorForModUnsafe w1 auth s = (Inl (PrismaError ''P2002''), s1)"
  shows "authenticateCreatorForMod w1 w2 auth s = authenticateCreatorForModUnsafe w2 auth s1"
  using assms by (simp add: authenticateCreatorForMod_def)

lemma updateCreator_reject:
  assumes "creatorId c \<noteq> effectiveCreatorId ctx" and "\<not> allowCreatorIdReset c"
    and "\<not> isSameMinecraftPlayer c ctx" and "creatorName c = Some n" and "n \<noteq> []"
  shows "updateCreator w c ctx s = (Inl (IncorrectCreatorIdError n), s)"
  using assms by (simp add: updateCreator_def)

lemma updateCreator_unmodified:
  assumes "creatorId c = effectiveCreatorId ctx \<or> allowCreatorIdReset c \<or> isSameMinecraftPlayer c ctx"
    and "\<not> modified c ctx"
  shows "updateCreator w c ctx s = (Inr c, s)"
  using assms by (auto simp: updateCreator_def)

lemma findMany_single:
  assumes "fst (findMany (searchConditions ctx) s) = [c]"
  shows "c \<in> set (rows s)"
    and "x \<in> set (rows s) \<Longrightarrow> creatorId x = effectiveCreatorId ctx \<Longrightarrow> x = c"
proof -
  let ?P = "\<lambda>c. list_ex (\<lambda>cond. holds cond c) (searchConditions ctx)"
  from assms have f: "filter ?P (rows s) = [c]" by (simp add: findMany_def)
  then have "c \<in> set (filter ?P (rows s))" by simp
  then show "c \<in> set (rows s)" by simp
  assume x: "x \<in> set (rows s)" and "creatorId x = effectiveCreatorId ctx"
  then have "?P x" by (simp add: searchConditions_def)
  with x have "x \<in> set (filter ?P (rows s))" by simp
  with f show "x = c" by simp
qed

lemma findMany_none:
  assumes "fst (findMany (searchConditions ctx) s) = []"
  shows "x \<in> set (rows s) \<Longrightarrow> \<not> list_ex (\<lambda>cond. holds cond x) (searchConditions ctx)"
    and "x \<in> set (rows s) \<Longrightarrow> creatorId x \<noteq> effectiveCreatorId ctx"
proof -
  let ?P = "\<lambda>c. list_ex (\<lambda>cond. holds cond c) (searchConditions ctx)"
  from assms have f: "filter ?P (rows s) = []" by (simp add: findMany_def)
  assume x: "x \<in> set (rows s)"
  with f show n: "\<not> ?P x" by (simp add: filter_empty_conv)
  then show "creatorId x \<noteq> effectiveCreatorId ctx" by (auto simp: searchConditions_def)
qed

lemma in_map_replace:
  "r \<in> set rs \<Longrightarrow> P r \<Longrightarrow> y \<in> set (map (\<lambda>x. if P x then y else x) rs)"
  by (induction rs) auto

lemma update_quiet:
  assumes q: "concurrent w (rows s) = rows s"
    and c: "c \<in> set (rows s)"
    and free: "\<And>x r. x \<in> set (rows s) \<Longrightarrow> id_row x \<noteq> id_row c \<Longrightarrow> creatorId x \<noteq> creatorId (f r)"
  obtains r where "id_row r = id_row c" and "r \<in> set (rows s)"
    and "update w (id_row c) f s
         = (Inr (f r), s\<lparr>rows := map (\<lambda>x. if id_row x = id_row c then f r else x) (rows s),
                          writes := Suc (writes s)\<rparr>)"
proof -
  from c have "find (\<lambda>r. id_row r = id_row c) (rows s) \<noteq> None"
    by (auto simp: find_None_iff)
  then obtain r where r: "find (\<lambda>r. id_row r = id_row c) (rows s) = Some r" by blast
  then have ri: "id_row r = id_row c" and rs: "r \<in> set (rows s)"
    by (auto simp: find_Some_iff)
  from free have "\<not> list_ex (\<lambda>x. id_row x \<noteq> id_row c \<and> creatorId x = creatorId (f r)) (rows s)"
    by (auto simp: list_ex_iff)
  with r q have "update w (id_row c) f s
      = (Inr (f r), s\<lparr>rows := map (\<lambda>x. if id_row x = id_row c then f r else x) (rows s),
                       writes := Suc (writes s)\<rparr>)"
    by (simp add: update_def Let_def)
  with ri rs show thesis by (rule that)
qed

lemma updateCreator_writes:
  assumes q: "concurrent w (rows s) = rows s"
    and c: "c \<in> set (rows s)"
    and free: "\<And>x. x \<in> set (rows s) \<Longrightarrow> creatorId x = effectiveCreatorId ctx \<Longrightarrow> x = c"
    and own: "creatorId c = effectiveCreatorId ctx \<or> allowCreatorIdReset c \<or> isSameMinecraftPlayer c ctx"
    and m: "modified c ctx"
    and nm: "creatorName c = effectiveCreatorName ctx \<and> name = effectiveCreatorName ctx
             \<or> creatorName c \<noteq> effectiveCreatorName ctx
               \<and> validateCreatorName (effectiveCreatorName ctx) = Inr name"
  shows "\<exists>c' s'. updateCreator w c ctx s = (Inr c', s')
           \<and> creatorId c' = effectiveCreatorId ctx \<and> \<not> allowCreatorIdReset c'
           \<and> creatorName c' = name \<and> id_row c' = id_row c \<and> c' \<in> set (rows s')
           \<and> writes s' = Suc (writes s) \<and> reads s' = reads s"
proof -
  let ?f = "\<lambda>r. r\<lparr>creatorName := name,
                 creatorNameSlug := creatorNameSlug_ctx ctx,
                 allowCreatorIdReset := False,
                 creatorId := effectiveCreatorId ctx,
                 creatorIdProvider := creatorIdProvider_ctx ctx,
                 minecraftPlayerUuid := effectiveMinecraftPlayerUuid ctx,
                 hwids := mru3 (hwid_ctx ctx) (hwids c),
                 ips := mru3 (ip_ctx ctx) (ips c)\<rparr>"
  have fr: "\<And>x r. x \<in> set (rows s) \<Longrightarrow> id_row x \<noteq> id_row c \<Longrightarrow> creatorId x \<noteq> creatorId (?f r)"
    using free by auto
  obtain r where ri: "id_row r = id_row c"
    and rs: "r \<in> set (rows s)"
    and u: "update w (id_row c) ?f s
              = (Inr (?f r), s\<lparr>rows := map (\<lambda>x. if id_row x = id_row c then ?f r else x) (rows s),
                               writes := Suc (writes s)\<rparr>)"
    by (rule update_quiet [where f = ?f, OF q c fr])
  from nm have n: "(if creatorName c = effectiveCreatorName ctx
               then Inr (effectiveCreatorName ctx)
               else validateCreatorName (effectiveCreatorName ctx)) = Inr name"
    by auto
  define s1 where "s1 = s\<lparr>rows := map (\<lambda>x. if id_row x = id_row c then ?f r else x) (rows s),
                               writes := Suc (writes s)\<rparr>"
  define s' where "s' = (if creatorName (?f r) \<noteq> creatorName c
                         then backgroundUpdateCreatorNameTranslation (?f r) s1 else s1)"
  have nrej: "\<not> (creatorId c \<noteq> effectiveCreatorId ctx \<and> \<not> allowCreatorIdReset c
            \<and> \<not> isSameMinecraftPlayer c ctx)"
    using own by blast
  have res: "updateCreator w c ctx s = (Inr (?f r), s')"
    unfolding updateCreator_def s'_def s1_def
    by (simp only: nrej m n u if_False if_True not_True_eq_False not_False_eq_True
        sum.case prod.case)
  have rows': "rows s' = map (\<lambda>x. if id_row x = id_row c then ?f r else x) (rows s)"
    by (simp add: s'_def s1_def backgroundUpdateCreatorNameTranslation_def)
  have mem: "?f r \<in> set (rows s')"
    unfolding rows' using rs ri by (rule in_map_replace)
  have cnt: "writes s' = Suc (writes s)" "reads s' = reads s"
    by (simp_all add: s'_def s1_def backgroundUpdateCreatorNameTranslation_def)
  have "creatorId (?f r) = effectiveCreatorId ctx" "\<not> allowCreatorIdReset (?f r)"
    "creatorName (?f r) = name" "id_row (?f r) = id_row c"
    using ri by simp_all
  with res mem cnt show ?thesis by blast
qed

lemma update_counts:
  "update w i f s = (r, s') \<Longrightarrow> writes s' = Suc (writes s) \<and> reads s' = reads s"
  by (auto simp: update_def Let_def split: option.splits if_splits)

lemma create_counts:
  "create w d s = (r, s') \<Longrightarrow> writes s' = Suc (writes s) \<and> reads s' = reads s"
  by (auto simp: create_def Let_def split: if_splits)

lemma validateCreatorName_error:
  "validateCreatorName name = Inl e \<Longrightarrow> \<exists>n. e = InvalidCreatorNameError n"
  by (auto simp: validateCreatorName_def split: option.splits if_splits)

lemma createCreator_counts:
  assumes "createCreator w ctx s = (r, s')"
  shows "reads s' = reads s" and "writes s' \<le> Suc (writes s)" and "writes s \<le> writes s'"
    and "r = Inl (PrismaError code) \<Longrightarrow> writes s' = Suc (writes s)"
proof -
  consider (invalid) n where "r = Inl (InvalidCreatorNameError n)" "s' = s"
    | (failed) name d e where "create w d s = (Inl e, s')" "r = Inl e"
    | (created) name d c s1 where "create w d s = (Inr c, s1)" "r = Inr c"
        "s' = backgroundUpdateCreatorNameTranslation c s1"
    using assms unfolding createCreator_def
    by (auto split: sum.splits prod.splits dest: validateCreatorName_error)
  then have "reads s' = reads s \<and> writes s' \<le> Suc (writes s) \<and> writes s \<le> writes s'
      \<and> (r = Inl (PrismaError code) \<longrightarrow> writes s' = Suc (writes s))"
    by cases (auto dest: create_counts simp: backgroundUpdateCreatorNameTranslation_def)
  then show "reads s' = reads s" and "writes s' \<le> Suc (writes s)" and "writes s \<le> writes s'"
    and "r = Inl (PrismaError code) \<Longrightarrow> writes s' = Suc (writes s)"
    by simp_all
qed

lemma updateCreator_counts:
  assumes "updateCreator w c ctx s = (r, s')"
  shows "reads s' = reads s" and "writes s' \<le> Suc (writes s)" and "writes s \<le> writes s'"
    and "r = Inl (PrismaError code) \<Longrightarrow> writes s' = Suc (writes s)"
proof -
  consider (same) "s' = s" "\<forall>code. r \<noteq> Inl (PrismaError code)"
    | (failed) f e where "update w (id_row c) f s = (Inl e, s')" "r = Inl e"
    | (updated) f u s1 where "update w (id_row c) f s = (Inr u, s1)" "r = Inr u"
        "s' = s1 \<or> s' = backgroundUpdateCreatorNameTranslation u s1"
    using assms unfolding updateCreator_def
    by (auto split: sum.splits prod.splits option.splits if_splits
        dest: validateCreatorName_error)
  then have "reads s' = reads s \<and> writes s' \<le> Suc (writes s) \<and> writes s \<le> writes s'
      \<and> (r = Inl (PrismaError code) \<longrightarrow> writes s' = Suc (writes s))"
    by cases (auto dest: update_counts simp: backgroundUpdateCreatorNameTranslation_def)
  then show "reads s' = reads s" and "writes s' \<le> Suc (writes s)" and "writes s \<le> writes s'"
    and "r = Inl (PrismaError code) \<Longrightarrow> writes s' = Suc (writes s)"
    by simp_all
qed

lemma effectiveClaim_error:
  "effectiveClaim w auth = Inl e \<Longrightarrow> e \<noteq> PrismaError code"
  by (auto simp: effectiveClaim_def split: provider.splits option.splits if_splits sum.splits)

lemma resolveContext_error:
  "resolveContext w auth = Inl e \<Longrightarrow> e \<noteq> PrismaError code"
  by (auto simp: resolveContext_def ensureValidCreatorId_def
      split: sum.splits prod.splits if_splits dest: effectiveClaim_error)

lemma unsafe_counts:
  assumes "authenticateCreatorForModUnsafe w auth s = (r, s')"
  shows "reads s' \<le> Suc (reads s)" and "writes s' \<le> Suc (writes s)"
    and "reads s \<le> reads s'" and "writes s \<le> writes s'"
    and "r = Inl (PrismaError code) \<Longrightarrow> reads s' = Suc (reads s) \<and> writes s' = Suc (writes s)"
    and "resolveContext w auth = Inr ctx \<Longrightarrow> reads s' = Suc (reads s)"
proof -
  let ?s1 = "s\<lparr>reads := Suc (reads s)\<rparr>"
  consider (unresolved) e where "resolveContext w auth = Inl e" "r = Inl e" "s' = s"
    | (rejected) ctx' e where "resolveContext w auth = Inr ctx'" "s' = ?s1"
        "r = Inl e" "\<forall>code. e \<noteq> PrismaError code"
    | (create) ctx' where "resolveContext w auth = Inr ctx'" "createCreator w ctx' ?s1 = (r, s')"
    | (update) ctx' c where "resolveContext w auth = Inr ctx'" "updateCreator w c ctx' ?s1 = (r, s')"
    using assms unfolding authenticateCreatorForModUnsafe_def findMany_def
    by (auto split: sum.splits option.splits list.splits if_splits)
  then have "reads s' \<le> Suc (reads s) \<and> writes s' \<le> Suc (writes s)
      \<and> reads s \<le> reads s' \<and> writes s \<le> writes s'
      \<and> (r = Inl (PrismaError code) \<longrightarrow> reads s' = Suc (reads s) \<and> writes s' = Suc (writes s))
      \<and> (resolveContext w auth = Inr ctx \<longrightarrow> reads s' = Suc (reads s))"
  proof cases
    case unresolved
    then show ?thesis by (auto dest: resolveContext_error)
  next
    case rejected
    then show ?thesis by auto
  next
    case create
    from createCreator_counts [OF create(2)] show ?thesis by auto
  next
    case update
    from updateCreator_counts [OF update(2)] show ?thesis by auto
  qed
  then show "reads s' \<le> Suc (reads s)" and "writes s' \<le> Suc (writes s)"
    and "reads s \<le> reads s'" and "writes s \<le> writes s'"
    and "r = Inl (PrismaError code) \<Longrightarrow> reads s' = Suc (reads s) \<and> writes s' = Suc (writes s)"
    and "resolveContext w auth = Inr ctx \<Longrightarrow> reads s' = Suc (reads s)"
    by simp_all
qed

text \<open>
  Claim C2. The wrapper runs the procedure once. When that run does not fail with the
  code \<open>P2002\<close>, its outcome and its store are the wrapper's. When it does, the failure came
  from the write after the one query of that run, and the wrapper's outcome is that of
  a second run of the whole procedure on the store the first run left, whatever that
  second run returns, a second \<open>P2002\<close> included: a second run that resolves its claim
  queries the store again. No more than two queries and two writes are made.
\<close>

theorem retry_once:
  "authenticateCreatorForModUnsafe w1 auth s = (r1, s1) \<longrightarrow>
     (r1 \<noteq> Inl (PrismaError ''P2002'') \<longrightarrow>
        authenticateCreatorForMod w1 w2 auth s = (r1, s1))
   \<and> (r1 = Inl (PrismaError ''P2002'') \<longrightarrow>
        authenticateCreatorForMod w1 w2 auth s = authenticateCreatorForModUnsafe w2 auth s1
        \<and> reads s1 = Suc (reads s) \<and> writes s1 = Suc (writes s)
        \<and> (resolveContext w2 auth = Inr ctx \<longrightarrow>
             reads (snd (authenticateCreatorForMod w1 w2 auth s)) = reads s + 2))
   \<and> reads (snd (authenticateCreatorForMod w1 w2 auth s)) \<le> reads s + 2
   \<and> writes (snd (authenticateCreatorForMod w1 w2 auth s)) \<le> writes s + 2"
proof (intro impI)
  assume first: "authenticateCreatorForModUnsafe w1 auth s = (r1, s1)"
  note c1 = unsafe_counts [OF first]
  show "(r1 \<noteq> Inl (PrismaError ''P2002'') \<longrightarrow>
        authenticateCreatorForMod w1 w2 auth s = (r1, s1))
   \<and> (r1 = Inl (PrismaError ''P2002'') \<longrightarrow>
        authenticateCreatorForMod w1 w2 auth s = authenticateCreatorForModUnsafe w2 auth s1
        \<and> reads s1 = Suc (reads s) \<and> writes s1 = Suc (writes s)
        \<and> (resolveContext w2 auth = Inr ctx \<longrightarrow>
             reads (snd (authenticateCreatorForMod w1 w2 auth s)) = reads s + 2))
   \<and> reads (snd (authenticateCreatorForMod w1 w2 auth s)) \<le> reads s + 2
   \<and> writes (snd (authenticateCreatorForMod w1 w2 auth s)) \<le> writes s + 2"
  proof (cases "r1 = Inl (PrismaError ''P2002'')")
    case False
    with first have "authenticateCreatorForMod w1 w2 auth s = (r1, s1)"
      by (rule wrapper_first)
    with False c1(1,2) show ?thesis by simp
  next
    case True
    with first have eq: "authenticateCreatorForMod w1 w2 auth s
                         = authenticateCreatorForModUnsafe w2 auth s1"
      by (simp add: wrapper_retry)
    obtain r2 s2 where second: "authenticateCreatorForModUnsafe w2 auth s1 = (r2, s2)"
      by (cases "authenticateCreatorForModUnsafe w2 auth s1")
    note c2 = unsafe_counts [OF second]
    from c1(5) [of "''P2002''"] True
    have s1: "reads s1 = Suc (reads s)" "writes s1 = Suc (writes s)" by simp_all
    from c2(6) [of ctx] s1
    have "resolveContext w2 auth = Inr ctx \<longrightarrow> reads s2 = reads s + 2" by simp
    with True eq second s1 c2(1,2) show ?thesis by simp
  qed
qed

theorem retry_once_witness:
  "authenticateCreatorForModUnsafe (racing (\<lambda>rs. rs @ [carol]))
       (claimOf Paradox idB (Some (js ''Carol'')) (js ''hw1'') (js ''10.0.0.1'')) (storeOf [bob])
     = (Inl (PrismaError ''P2002''),
        \<lparr>rows = [bob, carol], reads = 1, writes = 1, translationJobs = []\<rparr>)
   \<and> authenticateCreatorForMod (racing (\<lambda>rs. rs @ [carol])) quiet
       (claimOf Paradox idB (Some (js ''Carol'')) (js ''hw1'') (js ''10.0.0.1'')) (storeOf [bob])
     = (Inr carol, \<lparr>rows = [bob, carol], reads = 2, writes = 1, translationJobs = []\<rparr>)
   \<and> authenticateCreatorForModUnsafe quiet
       (claimOf Paradox idB (Some (js ''Bob'')) (js ''hw1'') (js ''10.0.0.1'')) (storeOf [bob])
     = (Inl (IncorrectCreatorIdError (js ''Bob'')),
        \<lparr>rows = [bob], reads = 1, writes = 0, translationJobs = []\<rparr>)
   \<and> authenticateCreatorForMod quiet quiet
       (claimOf Paradox idB (Some (js ''Bob'')) (js ''hw1'') (js ''10.0.0.1'')) (storeOf [bob])
     = (Inl (IncorrectCreatorIdError (js ''Bob'')),
        \<lparr>rows = [bob], reads = 1, writes = 0, translationJobs = []\<rparr>)
   \<and> authenticateCreatorForMod (racing (\<lambda>rs. rs @ [carol]))
       (racing (\<lambda>rs. [bob, carol\<lparr>creatorId := idC\<rparr>, carol\<lparr>id_row := 3\<rparr>]))
       (claimOf Paradox idB (Some (js ''Carol'')) (js ''hw2'') (js ''10.0.0.1'')) (storeOf [bob])
     = (Inl (PrismaError ''P2002''),
        \<lparr>rows = [bob, carol\<lparr>creatorId := idC\<rparr>, carol\<lparr>id_row := 3\<rparr>], reads = 2, writes = 2,
         translationJobs = []\<rparr>)"
  using retry_once [where ?w1.0 = "racing (\<lambda>rs. rs @ [carol])" and ?w2.0 = quiet
      and auth = "claimOf Paradox idB (Some (js ''Carol'')) (js ''hw1'') (js ''10.0.0.1'')"
      and s = "storeOf [bob]" and ?r1.0 = "Inl (PrismaError ''P2002'')"
      and ?s1.0 = "\<lparr>rows = [bob, carol], reads = 1, writes = 1, translationJobs = []\<rparr>"]
    retry_once [where ?w1.0 = quiet and ?w2.0 = quiet
      and auth = "claimOf Paradox idB (Some (js ''Bob'')) (js ''hw1'') (js ''10.0.0.1'')"
      and s = "storeOf [bob]" and ?r1.0 = "Inl (IncorrectCreatorIdError (js ''Bob''))"
      and ?s1.0 = "\<lparr>rows = [bob], reads = 1, writes = 0, translationJobs = []\<rparr>"]
  by (simp add: string_defs store_defs auth_defs example_defs)

text \<open>
  Claim C3, amended. Let the query of a run return the accounts \<open>cs\<close>. If there are
  exactly two and the effective Creator Name is present (the name of the claim, or for
  the official Minecraft provider the user name of the profile when the claim has none),
  the request is rejected with \<open>IncorrectCreatorIdError\<close> carrying that name, and the
  store is as before but for the count of queries. If there are more than two, or two
  and no effective name, the request fails with an \<open>AssertionError\<close>, which is not a
  \<open>CreatorError\<close>, and again nothing is written.
\<close>

theorem two_matches_rejected:
  "resolveContext w auth = Inr ctx \<and> fst (findMany (searchConditions ctx) s) = cs \<longrightarrow>
     (length cs = 2 \<and> effectiveCreatorName ctx = Some n \<and> n \<noteq> [] \<longrightarrow>
        authenticateCreatorForMod w w' auth s
        = (Inl (IncorrectCreatorIdError n), s\<lparr>reads := Suc (reads s)\<rparr>))
   \<and> (2 < length cs \<or> length cs = 2 \<and> \<not> truthy (effectiveCreatorName ctx) \<longrightarrow>
        (\<exists>m. authenticateCreatorForMod w w' auth s
             = (Inl (AssertionError m), s\<lparr>reads := Suc (reads s)\<rparr>)
             \<and> \<not> isCreatorError (AssertionError m)))"
proof (intro impI conjI)
  assume a: "resolveContext w auth = Inr ctx \<and> fst (findMany (searchConditions ctx) s) = cs"
  {
    assume "length cs = 2 \<and> effectiveCreatorName ctx = Some n \<and> n \<noteq> []"
    with a have "authenticateCreatorForModUnsafe w auth s
        = (Inl (IncorrectCreatorIdError n), s\<lparr>reads := Suc (reads s)\<rparr>)"
      by (simp add: unsafe_two)
    then show "authenticateCreatorForMod w w' auth s
        = (Inl (IncorrectCreatorIdError n), s\<lparr>reads := Suc (reads s)\<rparr>)"
      by (rule wrapper_first) simp
  }
  assume "2 < length cs \<or> length cs = 2 \<and> \<not> truthy (effectiveCreatorName ctx)"
  with a obtain m where "authenticateCreatorForModUnsafe w auth s
        = (Inl (AssertionError m), s\<lparr>reads := Suc (reads s)\<rparr>)"
    using unsafe_many [of w auth ctx s] by auto
  then have "authenticateCreatorForMod w w' auth s
        = (Inl (AssertionError m), s\<lparr>reads := Suc (reads s)\<rparr>)"
    by (rule wrapper_first) simp
  then show "\<exists>m. authenticateCreatorForMod w w' auth s
             = (Inl (AssertionError m), s\<lparr>reads := Suc (reads s)\<rparr>)
             \<and> \<not> isCreatorError (AssertionError m)"
    by simp
qed

theorem two_matches_rejected_witness:
  "resolveContext quiet (claimOf Paradox idB (Some (js ''Bob'')) (js ''hw1'') (js ''10.0.0.1''))
     = Inr (contextOf idB (Some (js ''Bob'')) (js ''hw1'') (js ''10.0.0.1''))
   \<and> fst (findMany (searchConditions (contextOf idB (Some (js ''Bob'')) (js ''hw1'') (js ''10.0.0.1'')))
         (storeOf [bob, carol])) = [bob, carol]
   \<and> authenticateCreatorForMod quiet quiet
        (claimOf Paradox idB (Some (js ''Bob'')) (js ''hw1'') (js ''10.0.0.1'')) (storeOf [bob, carol])
     = (Inl (IncorrectCreatorIdError (js ''Bob'')),
        \<lparr>rows = [bob, carol], reads = 1, writes = 0, translationJobs = []\<rparr>)
   \<and> fst (findMany (searchConditions (contextOf idB (Some (js ''Bob'')) (js ''hw1'') (js ''10.0.0.1'')))
         (storeOf [bob, carol, bobby])) = [bob, carol, bobby]
   \<and> authenticateCreatorForMod quiet quiet
        (claimOf Paradox idB (Some (js ''Bob'')) (js ''hw1'') (js ''10.0.0.1''))
        (storeOf [bob, carol, bobby])
     = (Inl (AssertionError
          ''Only two creators are returned, otherwise there are non-unique Creator Names.''),
        \<lparr>rows = [bob, carol, bobby], reads = 1, writes = 0, translationJobs = []\<rparr>)
   \<and> resolveContext quiet offlineClaim
     = Inr \<lparr>effectiveCreatorId = idB, effectiveCreatorName = None,
            effectiveMinecraftPlayerUuid = Some steveUuid, creatorNameSlug_ctx = None,
            hwid_ctx = js ''hw1'', ip_ctx = js ''10.0.0.1'',
            creatorIdProvider_ctx = MinecraftOffline\<rparr>
   \<and> fst (findMany (searchConditions
           \<lparr>effectiveCreatorId = idB, effectiveCreatorName = None,
            effectiveMinecraftPlayerUuid = Some steveUuid, creatorNameSlug_ctx = None,
            hwid_ctx = js ''hw1'', ip_ctx = js ''10.0.0.1'',
            creatorIdProvider_ctx = MinecraftOffline\<rparr>) (storeOf [carol, steve])) = [carol, steve]
   \<and> authenticateCreatorForMod quiet quiet offlineClaim (storeOf [carol, steve])
     = (Inl (AssertionError ''Creator Name can only be non-null if >1 creators are found.''),
        \<lparr>rows = [carol, steve], reads = 1, writes = 0, translationJobs = []\<rparr>)"
  using two_matches_rejected [where w = quiet and w' = quiet
      and auth = "claimOf Paradox idB (Some (js ''Bob'')) (js ''hw1'') (js ''10.0.0.1'')"
      and ctx = "contextOf idB (Some (js ''Bob'')) (js ''hw1'') (js ''10.0.0.1'')"
      and s = "storeOf [bob, carol]" and cs = "[bob, carol]" and n = "js ''Bob''"]
    two_matches_rejected [where w = quiet and w' = quiet
      and auth = "claimOf Paradox idB (Some (js ''Bob'')) (js ''hw1'') (js ''10.0.0.1'')"
      and ctx = "contextOf idB (Some (js ''Bob'')) (js ''hw1'') (js ''10.0.0.1'')"
      and s = "storeOf [bob, carol, bobby]" and cs = "[bob, carol, bobby]" and n = "js ''Bob''"]
    two_matches_rejected [where w = quiet and w' = quiet and auth = offlineClaim
      and ctx = "\<lparr>effectiveCreatorId = idB, effectiveCreatorName = None,
            effectiveMinecraftPlayerUuid = Some steveUuid, creatorNameSlug_ctx = None,
            hwid_ctx = js ''hw1'', ip_ctx = js ''10.0.0.1'',
            creatorIdProvider_ctx = MinecraftOffline\<rparr>"
      and s = "storeOf [carol, steve]" and cs = "[carol, steve]"]
  by (simp add: string_defs store_defs auth_defs example_defs)

text \<open>
  The claim as stated, with the name that the client supplied, fails: a claim of the
  official Minecraft provider without a name adopts the user name of the verified
  profile; with two matches it is rejected with \<open>IncorrectCreatorIdError\<close> for that name,
  which is a \<open>CreatorError\<close>, not with an \<open>AssertionError\<close>.
\<close>

theorem adopted_name_counterexample:
  "creatorName_auth officialClaim = None
   \<and> resolveContext profileOfBob officialClaim
     = Inr \<lparr>effectiveCreatorId = steveUuid, effectiveCreatorName = Some (js ''Bob''),
            effectiveMinecraftPlayerUuid = Some steveUuid, creatorNameSlug_ctx = Some (js ''bob''),
            hwid_ctx = js ''hw1'', ip_ctx = js ''10.0.0.1'',
            creatorIdProvider_ctx = MinecraftOfficial\<rparr>
   \<and> fst (findMany (searchConditions
           \<lparr>effectiveCreatorId = steveUuid, effectiveCreatorName = Some (js ''Bob''),
            effectiveMinecraftPlayerUuid = Some steveUuid, creatorNameSlug_ctx = Some (js ''bob''),
            hwid_ctx = js ''hw1'', ip_ctx = js ''10.0.0.1'',
            creatorIdProvider_ctx = MinecraftOfficial\<rparr>) (storeOf [bob, steve])) = [bob, steve]
   \<and> authenticateCreatorForMod profileOfBob profileOfBob officialClaim (storeOf [bob, steve])
     = (Inl (IncorrectCreatorIdError (js ''Bob'')),
        \<lparr>rows = [bob, steve], reads = 1, writes = 0, translationJobs = []\<rparr>)
   \<and> isCreatorError (IncorrectCreatorIdError (js ''Bob''))"
  by (simp add: string_defs store_defs auth_defs example_defs)

text \<open>
  Claim C1, amended. Let the query return the single account \<open>c\<close>, whose Creator ID
  differs from the effective one. If \<open>allowCreatorIdReset\<close> is false, \<open>c\<close> is not the same
  Minecraft player as the claim and \<open>c\<close> has a non-empty name, the request is rejected
  with \<open>IncorrectCreatorIdError\<close> carrying the stored name, and nothing is written. If
  \<open>allowCreatorIdReset\<close> is true, the stored row is rewritten, in a run that no other
  request disturbs, provided the effective name is the stored one or passes
  \<open>validateCreatorName\<close>: the result has the effective Creator ID and the flag reset to
  false. When the name changes and fails the validation, the request fails with the error
  of the validation and nothing is written.
\<close>

theorem ownership_check:
  "resolveContext w auth = Inr ctx \<and> fst (findMany (searchConditions ctx) s) = [c]
   \<and> creatorId c \<noteq> effectiveCreatorId ctx \<longrightarrow>
     (\<not> allowCreatorIdReset c \<and> \<not> isSameMinecraftPlayer c ctx
        \<and> creatorName c = Some n \<and> n \<noteq> [] \<longrightarrow>
        authenticateCreatorForMod w w' auth s
        = (Inl (IncorrectCreatorIdError n), s\<lparr>reads := Suc (reads s)\<rparr>))
   \<and> (allowCreatorIdReset c \<and> concurrent w (rows s) = rows s
        \<and> (creatorName c = effectiveCreatorName ctx \<and> name = effectiveCreatorName ctx
            \<or> creatorName c \<noteq> effectiveCreatorName ctx
              \<and> validateCreatorName (effectiveCreatorName ctx) = Inr name) \<longrightarrow>
        (\<exists>c' s'. authenticateCreatorForMod w w' auth s = (Inr c', s')
           \<and> creatorId c' = effectiveCreatorId ctx \<and> \<not> allowCreatorIdReset c'
           \<and> creatorName c' = name \<and> id_row c' = id_row c \<and> c' \<in> set (rows s')
           \<and> writes s' = Suc (writes s)))
   \<and> (allowCreatorIdReset c \<and> creatorName c \<noteq> effectiveCreatorName ctx
        \<and> validateCreatorName (effectiveCreatorName ctx) = Inl e \<longrightarrow>
        authenticateCreatorForMod w w' auth s = (Inl e, s\<lparr>reads := Suc (reads s)\<rparr>))"
proof (intro impI)
  assume a: "resolveContext w auth = Inr ctx \<and> fst (findMany (searchConditions ctx) s) = [c]
   \<and> creatorId c \<noteq> effectiveCreatorId ctx"
  let ?s1 = "s\<lparr>reads := Suc (reads s)\<rparr>"
  from a have run: "authenticateCreatorForModUnsafe w auth s = updateCreator w c ctx ?s1"
    by (simp add: unsafe_one)
  from a have differs: "creatorId c \<noteq> effectiveCreatorId ctx" by simp
  have reject: "authenticateCreatorForMod w w' auth s = (Inl (IncorrectCreatorIdError n), ?s1)"
    if "\<not> allowCreatorIdReset c \<and> \<not> isSameMinecraftPlayer c ctx
        \<and> creatorName c = Some n \<and> n \<noteq> []"
  proof -
    from that differs have "updateCreator w c ctx ?s1 = (Inl (IncorrectCreatorIdError n), ?s1)"
      by (simp add: updateCreator_reject)
    with run have "authenticateCreatorForModUnsafe w auth s = (Inl (IncorrectCreatorIdError n), ?s1)"
      by simp
    then show ?thesis by (rule wrapper_first) simp
  qed
  have reset: "\<exists>c' s'. authenticateCreatorForMod w w' auth s = (Inr c', s')
           \<and> creatorId c' = effectiveCreatorId ctx \<and> \<not> allowCreatorIdReset c'
           \<and> creatorName c' = name \<and> id_row c' = id_row c \<and> c' \<in> set (rows s')
           \<and> writes s' = Suc (writes s)"
    if h: "allowCreatorIdReset c \<and> concurrent w (rows s) = rows s
        \<and> (creatorName c = effectiveCreatorName ctx \<and> name = effectiveCreatorName ctx
            \<or> creatorName c \<noteq> effectiveCreatorName ctx
              \<and> validateCreatorName (effectiveCreatorName ctx) = Inr name)"
  proof -
    from a have single: "fst (findMany (searchConditions ctx) s) = [c]" by simp
    have q: "concurrent w (rows ?s1) = rows ?s1" using h by simp
    have c: "c \<in> set (rows ?s1)" using findMany_single(1) [OF single] by simp
    have free: "\<And>x. x \<in> set (rows ?s1) \<Longrightarrow> creatorId x = effectiveCreatorId ctx \<Longrightarrow> x = c"
      using findMany_single(2) [OF single] by simp
    have own: "creatorId c = effectiveCreatorId ctx \<or> allowCreatorIdReset c
               \<or> isSameMinecraftPlayer c ctx"
      using h by simp
    have m: "modified c ctx" using differs by (simp add: modified_def)
    have nm: "creatorName c = effectiveCreatorName ctx \<and> name = effectiveCreatorName ctx
             \<or> creatorName c \<noteq> effectiveCreatorName ctx
               \<and> validateCreatorName (effectiveCreatorName ctx) = Inr name"
      using h by simp
    from updateCreator_writes [OF q c free own m nm]
    obtain c' s' where u: "updateCreator w c ctx ?s1 = (Inr c', s')"
      and props: "creatorId c' = effectiveCreatorId ctx" "\<not> allowCreatorIdReset c'"
        "creatorName c' = name" "id_row c' = id_row c" "c' \<in> set (rows s')"
        "writes s' = Suc (writes ?s1)"
      by blast
    from run u have "authenticateCreatorForModUnsafe w auth s = (Inr c', s')" by simp
    then have "authenticateCreatorForMod w w' auth s = (Inr c', s')"
      by (rule wrapper_first) simp
    with props show ?thesis by auto
  qed
  have invalid: "authenticateCreatorForMod w w' auth s = (Inl e, ?s1)"
    if h: "allowCreatorIdReset c \<and> creatorName c \<noteq> effectiveCreatorName ctx
        \<and> validateCreatorName (effectiveCreatorName ctx) = Inl e"
  proof -
    from h differs have "modified c ctx" by (simp add: modified_def)
    with h have "updateCreator w c ctx ?s1 = (Inl e, ?s1)"
      by (simp add: updateCreator_def)
    with run have r: "authenticateCreatorForModUnsafe w auth s = (Inl e, ?s1)" by simp
    from h obtain bad where "e = InvalidCreatorNameError bad"
      using validateCreatorName_error by blast
    with r show ?thesis by (intro wrapper_first) simp_all
  qed
  from reject reset invalid
  show "(\<not> allowCreatorIdReset c \<and> \<not> isSameMinecraftPlayer c ctx
        \<and> creatorName c = Some n \<and> n \<noteq> [] \<longrightarrow>
        authenticateCreatorForMod w w' auth s
        = (Inl (IncorrectCreatorIdError n), s\<lparr>reads := Suc (reads s)\<rparr>))
   \<and> (allowCreatorIdReset c \<and> concurrent w (rows s) = rows s
        \<and> (creatorName c = effectiveCreatorName ctx \<and> name = effectiveCreatorName ctx
            \<or> creatorName c \<noteq> effectiveCreatorName ctx
              \<and> validateCreatorName (effectiveCreatorName ctx) = Inr name) \<longrightarrow>
        (\<exists>c' s'. authenticateCreatorForMod w w' auth s = (Inr c', s')
           \<and> creatorId c' = effectiveCreatorId ctx \<and> \<not> allowCreatorIdReset c'
           \<and> creatorName c' = name \<and> id_row c' = id_row c \<and> c' \<in> set (rows s')
           \<and> writes s' = Suc (writes s)))
   \<and> (allowCreatorIdReset c \<and> creatorName c \<noteq> effectiveCreatorName ctx
        \<and> validateCreatorName (effectiveCreatorName ctx) = Inl e \<longrightarrow>
        authenticateCreatorForMod w w' auth s = (Inl e, s\<lparr>reads := Suc (reads s)\<rparr>))"
    by blast
qed

theorem ownership_check_witness:
  "resolveContext quiet (claimOf Paradox idB (Some (js ''Bob'')) (js ''hw1'') (js ''10.0.0.1''))
     = Inr (contextOf idB (Some (js ''Bob'')) (js ''hw1'') (js ''10.0.0.1''))
   \<and> fst (findMany (searchConditions (contextOf idB (Some (js ''Bob'')) (js ''hw1'') (js ''10.0.0.1'')))
         (storeOf [bob])) = [bob]
   \<and> creatorId bob \<noteq> idB \<and> \<not> allowCreatorIdReset bob
   \<and> \<not> isSameMinecraftPlayer bob (contextOf idB (Some (js ''Bob'')) (js ''hw1'') (js ''10.0.0.1''))
   \<and> creatorName bob = Some (js ''Bob'')
   \<and> authenticateCreatorForMod quiet quiet
        (claimOf Paradox idB (Some (js ''Bob'')) (js ''hw1'') (js ''10.0.0.1'')) (storeOf [bob])
     = (Inl (IncorrectCreatorIdError (js ''Bob'')),
        \<lparr>rows = [bob], reads = 1, writes = 0, translationJobs = []\<rparr>)
   \<and> fst (findMany (searchConditions (contextOf idB (Some (js ''Bob'')) (js ''hw1'') (js ''10.0.0.1'')))
         (storeOf [bob\<lparr>allowCreatorIdReset := True\<rparr>])) = [bob\<lparr>allowCreatorIdReset := True\<rparr>]
   \<and> concurrent quiet [bob\<lparr>allowCreatorIdReset := True\<rparr>] = [bob\<lparr>allowCreatorIdReset := True\<rparr>]
   \<and> authenticateCreatorForMod quiet quiet
        (claimOf Paradox idB (Some (js ''Bob'')) (js ''hw1'') (js ''10.0.0.1''))
        (storeOf [bob\<lparr>allowCreatorIdReset := True\<rparr>])
     = (Inr (bob\<lparr>creatorId := idB\<rparr>),
        \<lparr>rows = [bob\<lparr>creatorId := idB\<rparr>], reads = 1, writes = 1, translationJobs = []\<rparr>)
   \<and> validateCreatorName (Some longName) = Inl (InvalidCreatorNameError longName)
   \<and> fst (findMany (searchConditions (contextOf idB (Some longName) (js ''hw1'') (js ''10.0.0.1'')))
         (storeOf [bob\<lparr>allowCreatorIdReset := True\<rparr>])) = [bob\<lparr>allowCreatorIdReset := True\<rparr>]
   \<and> authenticateCreatorForMod quiet quiet
        (claimOf Paradox idB (Some longName) (js ''hw1'') (js ''10.0.0.1''))
        (storeOf [bob\<lparr>allowCreatorIdReset := True\<rparr>])
     = (Inl (InvalidCreatorNameError longName),
        \<lparr>rows = [bob\<lparr>allowCreatorIdReset := True\<rparr>], reads = 1, writes = 0,
         translationJobs = []\<rparr>)"
  using ownership_check [where w = quiet and w' = quiet
      and auth = "claimOf Paradox idB (Some (js ''Bob'')) (js ''hw1'') (js ''10.0.0.1'')"
      and ctx = "contextOf idB (Some (js ''Bob'')) (js ''hw1'') (js ''10.0.0.1'')"
      and s = "storeOf [bob]" and c = bob and n = "js ''Bob''"]
    ownership_check [where w = quiet and w' = quiet
      and auth = "claimOf Paradox idB (Some (js ''Bob'')) (js ''hw1'') (js ''10.0.0.1'')"
      and ctx = "contextOf idB (Some (js ''Bob'')) (js ''hw1'') (js ''10.0.0.1'')"
      and s = "storeOf [bob\<lparr>allowCreatorIdReset := True\<rparr>]"
      and c = "bob\<lparr>allowCreatorIdReset := True\<rparr>" and name = "Some (js ''Bob'')"]
    ownership_check [where w = quiet and w' = quiet
      and auth = "claimOf Paradox idB (Some longName) (js ''hw1'') (js ''10.0.0.1'')"
      and ctx = "contextOf idB (Some longName) (js ''hw1'') (js ''10.0.0.1'')"
      and s = "storeOf [bob\<lparr>allowCreatorIdReset := True\<rparr>]"
      and c = "bob\<lparr>allowCreatorIdReset := True\<rparr>"
      and e = "InvalidCreatorNameError longName"]
  by (simp add: string_defs store_defs auth_defs example_defs)

text \<open>
  The claim as stated fails: with \<open>allowCreatorIdReset\<close> true and a claimed name of 26 code
  units that has the stored slug, the request fails with \<open>InvalidCreatorNameError\<close>; and a
  stored account without a name, matched by the null slug of a blank claimed name, is
  refused with an \<open>AssertionError\<close>, not with \<open>IncorrectCreatorIdError\<close>.
\<close>

theorem identity_reset_counterexample:
  "resolveContext quiet (claimOf Paradox idB (Some longName) (js ''hw1'') (js ''10.0.0.1''))
     = Inr (contextOf idB (Some longName) (js ''hw1'') (js ''10.0.0.1''))
   \<and> fst (findMany (searchConditions (contextOf idB (Some longName) (js ''hw1'') (js ''10.0.0.1'')))
         (storeOf [bob\<lparr>allowCreatorIdReset := True\<rparr>])) = [bob\<lparr>allowCreatorIdReset := True\<rparr>]
   \<and> creatorId (bob\<lparr>allowCreatorIdReset := True\<rparr>) \<noteq> idB
   \<and> allowCreatorIdReset (bob\<lparr>allowCreatorIdReset := True\<rparr>)
   \<and> authenticateCreatorForMod quiet quiet
        (claimOf Paradox idB (Some longName) (js ''hw1'') (js ''10.0.0.1''))
        (storeOf [bob\<lparr>allowCreatorIdReset := True\<rparr>])
     = (Inl (InvalidCreatorNameError longName),
        \<lparr>rows = [bob\<lparr>allowCreatorIdReset := True\<rparr>], reads = 1, writes = 0,
         translationJobs = []\<rparr>)
   \<and> resolveContext quiet (claimOf Paradox idB (Some (js '' '')) (js ''hw1'') (js ''10.0.0.1''))
     = Inr (contextOf idB (Some (js '' '')) (js ''hw1'') (js ''10.0.0.1''))
   \<and> fst (findMany (searchConditions (contextOf idB (Some (js '' '')) (js ''hw1'') (js ''10.0.0.1'')))
         (storeOf [anon])) = [anon]
   \<and> creatorId anon \<noteq> idB \<and> \<not> allowCreatorIdReset anon
   \<and> \<not> isSameMinecraftPlayer anon (contextOf idB (Some (js '' '')) (js ''hw1'') (js ''10.0.0.1''))
   \<and> authenticateCreatorForMod quiet quiet
        (claimOf Paradox idB (Some (js '' '')) (js ''hw1'') (js ''10.0.0.1'')) (storeOf [anon])
     = (Inl (AssertionError ''creator.creatorName''),
        \<lparr>rows = [anon], reads = 1, writes = 0, translationJobs = []\<rparr>)"
  by (simp add: string_defs store_defs auth_defs example_defs)

text \<open>
  Claim C9, amended. The rejection of a claimed name that another account owns (two
  matches) and the rejection by the ownership check are raised as the same error,
  \<open>IncorrectCreatorIdError\<close> with a name: the effective name of the claim in the first
  case, the name of the stored account in the second.
\<close>

theorem rejections_share_error:
  "resolveContext w auth = Inr ctx \<and> fst (findMany (searchConditions ctx) s) = cs \<longrightarrow>
     (length cs = 2 \<and> effectiveCreatorName ctx = Some n \<and> n \<noteq> [] \<longrightarrow>
        fst (authenticateCreatorForMod w w' auth s) = Inl (IncorrectCreatorIdError n))
   \<and> (cs = [c] \<and> creatorId c \<noteq> effectiveCreatorId ctx \<and> \<not> allowCreatorIdReset c
        \<and> \<not> isSameMinecraftPlayer c ctx \<and> creatorName c = Some m \<and> m \<noteq> [] \<longrightarrow>
        fst (authenticateCreatorForMod w w' auth s) = Inl (IncorrectCreatorIdError m))"
proof (intro impI conjI)
  assume a: "resolveContext w auth = Inr ctx \<and> fst (findMany (searchConditions ctx) s) = cs"
  let ?s1 = "s\<lparr>reads := Suc (reads s)\<rparr>"
  {
    assume "length cs = 2 \<and> effectiveCreatorName ctx = Some n \<and> n \<noteq> []"
    with a have "authenticateCreatorForModUnsafe w auth s = (Inl (IncorrectCreatorIdError n), ?s1)"
      by (simp add: unsafe_two)
    then have "authenticateCreatorForMod w w' auth s = (Inl (IncorrectCreatorIdError n), ?s1)"
      by (rule wrapper_first) simp
    then show "fst (authenticateCreatorForMod w w' auth s) = Inl (IncorrectCreatorIdError n)"
      by simp
  }
  assume b: "cs = [c] \<and> creatorId c \<noteq> effectiveCreatorId ctx \<and> \<not> allowCreatorIdReset c
        \<and> \<not> isSameMinecraftPlayer c ctx \<and> creatorName c = Some m \<and> m \<noteq> []"
  with a have "authenticateCreatorForModUnsafe w auth s = updateCreator w c ctx ?s1"
    by (simp add: unsafe_one)
  with b have "authenticateCreatorForModUnsafe w auth s = (Inl (IncorrectCreatorIdError m), ?s1)"
    by (simp add: updateCreator_reject)
  then have "authenticateCreatorForMod w w' auth s = (Inl (IncorrectCreatorIdError m), ?s1)"
    by (rule wrapper_first) simp
  then show "fst (authenticateCreatorForMod w w' auth s) = Inl (IncorrectCreatorIdError m)"
    by simp
qed

theorem rejections_share_error_witness:
  "resolveContext quiet (claimOf Paradox idB (Some (js ''Bob'')) (js ''hw1'') (js ''10.0.0.1''))
     = Inr (contextOf idB (Some (js ''Bob'')) (js ''hw1'') (js ''10.0.0.1''))
   \<and> fst (findMany (searchConditions (contextOf idB (Some (js ''Bob'')) (js ''hw1'') (js ''10.0.0.1'')))
         (storeOf [bob, carol])) = [bob, carol]
   \<and> fst (authenticateCreatorForMod quiet quiet
        (claimOf Paradox idB (Some (js ''Bob'')) (js ''hw1'') (js ''10.0.0.1'')) (storeOf [bob, carol]))
     = Inl (IncorrectCreatorIdError (js ''Bob''))
   \<and> fst (findMany (searchConditions (contextOf idB (Some (js ''Bob'')) (js ''hw1'') (js ''10.0.0.1'')))
         (storeOf [bobby])) = [bobby]
   \<and> creatorId bobby \<noteq> idB \<and> \<not> allowCreatorIdReset bobby
   \<and> \<not> isSameMinecraftPlayer bobby (contextOf idB (Some (js ''Bob'')) (js ''hw1'') (js ''10.0.0.1''))
   \<and> creatorName bobby = Some (js ''BOB'')
   \<and> fst (authenticateCreatorForMod quiet quiet
        (claimOf Paradox idB (Some (js ''Bob'')) (js ''hw1'') (js ''10.0.0.1'')) (storeOf [bobby]))
     = Inl (IncorrectCreatorIdError (js ''BOB''))"
  using rejections_share_error [where w = quiet and w' = quiet
      and auth = "claimOf Paradox idB (Some (js ''Bob'')) (js ''hw1'') (js ''10.0.0.1'')"
      and ctx = "contextOf idB (Some (js ''Bob'')) (js ''hw1'') (js ''10.0.0.1'')"
      and s = "storeOf [bob, carol]" and cs = "[bob, carol]" and n = "js ''Bob''"]
    rejections_share_error [where w = quiet and w' = quiet
      and auth = "claimOf Paradox idB (Some (js ''Bob'')) (js ''hw1'') (js ''10.0.0.1'')"
      and ctx = "contextOf idB (Some (js ''Bob'')) (js ''hw1'') (js ''10.0.0.1'')"
      and s = "storeOf [bobby]" and cs = "[bobby]" and c = bobby and m = "js ''BOB''"]
  by (simp add: string_defs store_defs auth_defs example_defs)

text \<open>
  The two conditions cannot be told apart from the error: the same claim meets two
  matches in one store and the ownership check in another, and the error is the same
  value in both.
\<close>

theorem same_error_counterexample:
  "length (fst (findMany (searchConditions (contextOf idB (Some (js ''Bob'')) (js ''hw1'') (js ''10.0.0.1'')))
         (storeOf [bob, carol]))) = 2
   \<and> fst (authenticateCreatorForMod quiet quiet
        (claimOf Paradox idB (Some (js ''Bob'')) (js ''hw1'') (js ''10.0.0.1'')) (storeOf [bob, carol]))
     = Inl (IncorrectCreatorIdError (js ''Bob''))
   \<and> fst (findMany (searchConditions (contextOf idB (Some (js ''Bob'')) (js ''hw1'') (js ''10.0.0.1'')))
         (storeOf [bob])) = [bob]
   \<and> fst (authenticateCreatorForMod quiet quiet
        (claimOf Paradox idB (Some (js ''Bob'')) (js ''hw1'') (js ''10.0.0.1'')) (storeOf [bob]))
     = Inl (IncorrectCreatorIdError (js ''Bob''))"
  by (simp add: string_defs store_defs auth_defs example_defs)

lemma createCreator_quiet:
  assumes q: "concurrent w (rows s) = rows s"
    and free: "\<And>x. x \<in> set (rows s) \<Longrightarrow> creatorId x \<noteq> effectiveCreatorId ctx"
    and v: "validateCreatorName (effectiveCreatorName ctx) = Inr name"
  shows "createCreator w ctx s
         = (Inr \<lparr>id_row = freshId (rows s),
                  creatorId = effectiveCreatorId ctx,
                  creatorIdProvider = creatorIdProvider_ctx ctx,
                  creatorName = name,
                  creatorNameSlug = creatorNameSlug_ctx ctx,
                  minecraftPlayerUuid = effectiveMinecraftPlayerUuid ctx,
                  allowCreatorIdReset = False,
                  hwids = [hwid_ctx ctx],
                  ips = [ip_ctx ctx]\<rparr>,
            s\<lparr>rows := rows s @ [\<lparr>id_row = freshId (rows s),
                  creatorId = effectiveCreatorId ctx,
                  creatorIdProvider = creatorIdProvider_ctx ctx,
                  creatorName = name,
                  creatorNameSlug = creatorNameSlug_ctx ctx,
                  minecraftPlayerUuid = effectiveMinecraftPlayerUuid ctx,
                  allowCreatorIdReset = False,
                  hwids = [hwid_ctx ctx],
                  ips = [ip_ctx ctx]\<rparr>],
               writes := Suc (writes s),
               translationJobs := translationJobs s @ [freshId (rows s)]\<rparr>)"
proof -
  from free have "\<not> list_ex (\<lambda>r. creatorId r = effectiveCreatorId ctx) (rows s)"
    by (auto simp: list_ex_iff)
  with q v show ?thesis
    by (simp add: createCreator_def create_def Let_def backgroundUpdateCreatorNameTranslation_def)
qed

lemma createCreator_Inr:
  assumes "createCreator w ctx s = (Inr c', s')"
  shows "creatorId c' = effectiveCreatorId ctx"
    and "creatorIdProvider c' = creatorIdProvider_ctx ctx"
    and "minecraftPlayerUuid c' = effectiveMinecraftPlayerUuid ctx"
    and "c' \<in> set (rows s')"
proof -
  from assms obtain name d s1 where
    c: "create w d s = (Inr c', s1)"
    and d: "creatorId d = effectiveCreatorId ctx" "creatorIdProvider d = creatorIdProvider_ctx ctx"
      "minecraftPlayerUuid d = effectiveMinecraftPlayerUuid ctx"
    and s': "s' = backgroundUpdateCreatorNameTranslation c' s1"
    unfolding createCreator_def
    by (auto split: sum.splits prod.splits)
  from c have "c' = d\<lparr>id_row := freshId (concurrent w (rows s)), allowCreatorIdReset := False\<rparr>"
    and "c' \<in> set (rows s1)"
    by (auto simp: create_def Let_def split: if_splits)
  with d s' show "creatorId c' = effectiveCreatorId ctx"
    and "creatorIdProvider c' = creatorIdProvider_ctx ctx"
    and "minecraftPlayerUuid c' = effectiveMinecraftPlayerUuid ctx"
    and "c' \<in> set (rows s')"
    by (simp_all add: backgroundUpdateCreatorNameTranslation_def)
qed

lemma unsafe_Inr:
  assumes run: "authenticateCreatorForModUnsafe w auth s = (Inr c', s')"
    and ctx: "resolveContext w auth = Inr ctx"
  shows "creatorId c' = effectiveCreatorId ctx"
    and "creatorIdProvider c' = creatorIdProvider_ctx ctx"
    and "minecraftPlayerUuid c' = effectiveMinecraftPlayerUuid ctx"
    and "c' \<in> set (rows s')"
proof -
  let ?s1 = "s\<lparr>reads := Suc (reads s)\<rparr>"
  let ?cs = "fst (findMany (searchConditions ctx) s)"
  consider (create) "?cs = []" "createCreator w ctx ?s1 = (Inr c', s')"
    | (update) c where "?cs = [c]" "updateCreator w c ctx ?s1 = (Inr c', s')"
    using run ctx unfolding authenticateCreatorForModUnsafe_def
    by (subst (asm) findMany_pair)
       (auto split: option.splits list.splits if_splits)
  then have "creatorId c' = effectiveCreatorId ctx
      \<and> creatorIdProvider c' = creatorIdProvider_ctx ctx
      \<and> minecraftPlayerUuid c' = effectiveMinecraftPlayerUuid ctx
      \<and> c' \<in> set (rows s')"
  proof cases
    case create
    from createCreator_Inr [OF create(2)] show ?thesis by simp
  next
    case (update c)
    show ?thesis
    proof (cases "modified c ctx")
      case True
      with updateCreator_Inr(3) [OF update(2)] show ?thesis by simp
    next
      case False
      with updateCreator_Inr(2) [OF update(2)] findMany_single(1) [OF update(1)]
      show ?thesis by (auto simp: modified_def)
    qed
  qed
  then show "creatorId c' = effectiveCreatorId ctx"
    and "creatorIdProvider c' = creatorIdProvider_ctx ctx"
    and "minecraftPlayerUuid c' = effectiveMinecraftPlayerUuid ctx"
    and "c' \<in> set (rows s')"
    by simp_all
qed

lemma resolveContext_plain:
  assumes "creatorIdProvider_auth auth = Paradox \<or> creatorIdProvider_auth auth = Local"
  shows "resolveContext w auth = resolveContext w' auth"
    and "resolveContext w auth = Inr ctx \<Longrightarrow>
           effectiveMinecraftPlayerUuid ctx = None
         \<and> effectiveCreatorId ctx = creatorId_auth auth
         \<and> effectiveCreatorName ctx = creatorName_auth auth
         \<and> creatorIdProvider_ctx ctx = creatorIdProvider_auth auth"
  using assms
  by (auto simp: resolveContext_def effectiveClaim_def split: sum.splits)

lemma updateCreator_invalid:
  assumes "creatorId c = effectiveCreatorId ctx \<or> allowCreatorIdReset c \<or> isSameMinecraftPlayer c ctx"
    and "creatorName c \<noteq> effectiveCreatorName ctx"
    and "validateCreatorName (effectiveCreatorName ctx) = Inl e"
  shows "updateCreator w c ctx s = (Inl e, s)"
  using assms by (auto simp: updateCreator_def modified_def)

text \<open>
  Claim C10. Let the provider of the claim be \<open>paradox\<close> or \<open>local\<close>, and let the query
  return the single account \<open>c\<close>, which has the Creator ID of the claim and a linked
  Minecraft player UUID. If the authentication succeeds, the account it returns has no
  Minecraft player UUID and the provider of the claim, it is a row of the store, and a
  write was made; in a run that no other request disturbs it is the row of \<open>c\<close>, written
  once.
\<close>

theorem minecraft_link_cleared:
  "(creatorIdProvider_auth auth = Paradox \<or> creatorIdProvider_auth auth = Local)
   \<and> resolveContext w auth = Inr ctx \<and> fst (findMany (searchConditions ctx) s) = [c]
   \<and> creatorId c = creatorId_auth auth \<and> minecraftPlayerUuid c = Some u
   \<and> authenticateCreatorForMod w w' auth s = (Inr c', s')
   \<longrightarrow> minecraftPlayerUuid c' = None
     \<and> creatorIdProvider c' = creatorIdProvider_auth auth
     \<and> c' \<in> set (rows s') \<and> writes s < writes s'
     \<and> (concurrent w (rows s) = rows s \<longrightarrow> id_row c' = id_row c \<and> writes s' = Suc (writes s))"
proof (intro impI)
  assume a: "(creatorIdProvider_auth auth = Paradox \<or> creatorIdProvider_auth auth = Local)
   \<and> resolveContext w auth = Inr ctx \<and> fst (findMany (searchConditions ctx) s) = [c]
   \<and> creatorId c = creatorId_auth auth \<and> minecraftPlayerUuid c = Some u
   \<and> authenticateCreatorForMod w w' auth s = (Inr c', s')"
  let ?s1 = "s\<lparr>reads := Suc (reads s)\<rparr>"
  from a have p: "creatorIdProvider_auth auth = Paradox \<or> creatorIdProvider_auth auth = Local"
    and ctx: "resolveContext w auth = Inr ctx"
    and single: "fst (findMany (searchConditions ctx) s) = [c]"
    and res: "authenticateCreatorForMod w w' auth s = (Inr c', s')"
    by simp_all
  from resolveContext_plain(2) [OF p ctx]
  have eff: "effectiveMinecraftPlayerUuid ctx = None"
    "effectiveCreatorId ctx = creatorId_auth auth"
    "creatorIdProvider_ctx ctx = creatorIdProvider_auth auth"
    by simp_all
  from a eff have m: "modified c ctx" by (simp add: modified_def)
  from ctx single have run: "authenticateCreatorForModUnsafe w auth s = updateCreator w c ctx ?s1"
    by (rule unsafe_one)
  obtain r1 s1 where first: "authenticateCreatorForModUnsafe w auth s = (r1, s1)"
    by (cases "authenticateCreatorForModUnsafe w auth s")
  have general: "minecraftPlayerUuid c' = None
     \<and> creatorIdProvider c' = creatorIdProvider_auth auth
     \<and> c' \<in> set (rows s') \<and> writes s < writes s'"
  proof (cases "r1 = Inl (PrismaError ''P2002'')")
    case False
    with first have "authenticateCreatorForMod w w' auth s = (r1, s1)" by (rule wrapper_first)
    with res first run have "updateCreator w c ctx ?s1 = (Inr c', s')" by simp
    from updateCreator_Inr(3) [OF this m] eff show ?thesis by simp
  next
    case True
    with first have "authenticateCreatorForMod w w' auth s
                     = authenticateCreatorForModUnsafe w' auth s1"
      by (simp add: wrapper_retry)
    with res have second: "authenticateCreatorForModUnsafe w' auth s1 = (Inr c', s')" by simp
    from ctx resolveContext_plain(1) [OF p, of w w'] have ctx': "resolveContext w' auth = Inr ctx"
      by simp
    from unsafe_counts(5) [OF first, of "''P2002''"] True have "writes s1 = Suc (writes s)" by simp
    with unsafe_counts(4) [OF second] have "writes s < writes s'" by simp
    with unsafe_Inr [OF second ctx'] eff show ?thesis by simp
  qed
  have undisturbed: "id_row c' = id_row c \<and> writes s' = Suc (writes s)"
    if q: "concurrent w (rows s) = rows s"
  proof -
    have q1: "concurrent w (rows ?s1) = rows ?s1" using q by simp
    have c1: "c \<in> set (rows ?s1)" using findMany_single(1) [OF single] by simp
    have free: "\<And>x. x \<in> set (rows ?s1) \<Longrightarrow> creatorId x = effectiveCreatorId ctx \<Longrightarrow> x = c"
      using findMany_single(2) [OF single] by simp
    have own: "creatorId c = effectiveCreatorId ctx \<or> allowCreatorIdReset c
               \<or> isSameMinecraftPlayer c ctx"
      using a eff by simp
    show ?thesis
    proof (cases "creatorName c \<noteq> effectiveCreatorName ctx
                  \<and> (\<exists>e. validateCreatorName (effectiveCreatorName ctx) = Inl e)")
      case True
      then obtain e where e: "validateCreatorName (effectiveCreatorName ctx) = Inl e"
        and ne: "creatorName c \<noteq> effectiveCreatorName ctx"
        by blast
      with own have "updateCreator w c ctx ?s1 = (Inl e, ?s1)"
        by (simp add: updateCreator_invalid)
      with run have r: "authenticateCreatorForModUnsafe w auth s = (Inl e, ?s1)" by simp
      from e obtain bad where "e = InvalidCreatorNameError bad"
        using validateCreatorName_error by blast
      with r have "authenticateCreatorForMod w w' auth s = (Inl e, ?s1)"
        by (intro wrapper_first) simp_all
      with res show ?thesis by simp
    next
      case False
      then obtain name where
        nm: "creatorName c = effectiveCreatorName ctx \<and> name = effectiveCreatorName ctx
         \<or> creatorName c \<noteq> effectiveCreatorName ctx
           \<and> validateCreatorName (effectiveCreatorName ctx) = Inr name"
        by (cases "validateCreatorName (effectiveCreatorName ctx)") auto
      from updateCreator_writes [OF q1 c1 free own m nm]
      obtain c2 s2 where u: "updateCreator w c ctx ?s1 = (Inr c2, s2)"
        and props: "id_row c2 = id_row c" "writes s2 = Suc (writes ?s1)"
        by blast
      from run u have "authenticateCreatorForModUnsafe w auth s = (Inr c2, s2)" by simp
      then have "authenticateCreatorForMod w w' auth s = (Inr c2, s2)"
        by (rule wrapper_first) simp
      with res props show ?thesis by simp
    qed
  qed
  from general undisturbed
  show "minecraftPlayerUuid c' = None
     \<and> creatorIdProvider c' = creatorIdProvider_auth auth
     \<and> c' \<in> set (rows s') \<and> writes s < writes s'
     \<and> (concurrent w (rows s) = rows s \<longrightarrow> id_row c' = id_row c \<and> writes s' = Suc (writes s))"
    by blast
qed

theorem minecraft_link_cleared_witness:
  "creatorIdProvider_auth (claimOf Paradox idD None (js ''hw4'') (js ''10.0.0.4'')) = Paradox
   \<and> resolveContext quiet (claimOf Paradox idD None (js ''hw4'') (js ''10.0.0.4''))
     = Inr (contextOf idD None (js ''hw4'') (js ''10.0.0.4''))
   \<and> fst (findMany (searchConditions (contextOf idD None (js ''hw4'') (js ''10.0.0.4'')))
         (storeOf [steve])) = [steve]
   \<and> creatorId steve = creatorId_auth (claimOf Paradox idD None (js ''hw4'') (js ''10.0.0.4''))
   \<and> minecraftPlayerUuid steve = Some steveUuid
   \<and> concurrent quiet (rows (storeOf [steve])) = rows (storeOf [steve])
   \<and> authenticateCreatorForMod quiet quiet
        (claimOf Paradox idD None (js ''hw4'') (js ''10.0.0.4'')) (storeOf [steve])
     = (Inr (steve\<lparr>creatorIdProvider := Paradox, minecraftPlayerUuid := None\<rparr>),
        \<lparr>rows = [steve\<lparr>creatorIdProvider := Paradox, minecraftPlayerUuid := None\<rparr>],
         reads = 1, writes = 1, translationJobs = []\<rparr>)
   \<and> minecraftPlayerUuid (steve\<lparr>creatorIdProvider := Paradox, minecraftPlayerUuid := None\<rparr>) = None"
  using minecraft_link_cleared [where auth = "claimOf Paradox idD None (js ''hw4'') (js ''10.0.0.4'')"
      and w = quiet and w' = quiet and s = "storeOf [steve]" and c = steve
      and ctx = "contextOf idD None (js ''hw4'') (js ''10.0.0.4'')" and u = steveUuid
      and c' = "steve\<lparr>creatorIdProvider := Paradox, minecraftPlayerUuid := None\<rparr>"
      and s' = "\<lparr>rows = [steve\<lparr>creatorIdProvider := Paradox, minecraftPlayerUuid := None\<rparr>],
         reads = 1, writes = 1, translationJobs = []\<rparr>"]
  by (simp add: string_defs store_defs auth_defs example_defs)

lemma findMany_appended:
  assumes "fst (findMany (searchConditions ctx) s) = []"
    and "creatorId c = effectiveCreatorId ctx"
    and "rows s1 = rows s @ [c]"
  shows "fst (findMany (searchConditions ctx) s1) = [c]"
proof -
  from assms(2) have "list_ex (\<lambda>cond. holds cond c) (searchConditions ctx)"
    by (simp add: searchConditions_def)
  with assms(1,3) show ?thesis by (simp add: findMany_def)
qed

text \<open>
  The identifier of a new row is above every identifier of the table, so the row of a
  created account is found by its identifier, and an update that writes the values the
  row has already leaves the table as it is.
\<close>

lemma fold_max_start: "a \<le> fold max xs (a::nat)"
proof (induction xs arbitrary: a)
  case Nil
  show ?case by simp
next
  case (Cons y ys)
  have "a \<le> max y a" by simp
  also have "max y a \<le> fold max ys (max y a)" by (rule Cons.IH)
  finally show ?case by simp
qed

lemma fold_max_ge: "x \<in> set xs \<Longrightarrow> x \<le> fold max xs (a::nat)"
proof (induction xs arbitrary: a)
  case Nil
  then show ?case by simp
next
  case (Cons y ys)
  show ?case
  proof (cases "x = y")
    case True
    have "y \<le> max y a" by simp
    also have "max y a \<le> fold max ys (max y a)" by (rule fold_max_start)
    finally show ?thesis using True by simp
  next
    case False
    with Cons.prems have "x \<in> set ys" by simp
    then show ?thesis using Cons.IH by simp
  qed
qed

lemma freshId_greater: "x \<in> set rs \<Longrightarrow> id_row x < freshId rs"
  using fold_max_ge [of "id_row x" "map id_row rs" 0] by (simp add: freshId_def less_Suc_eq_le)

lemma mru3_singleton: "mru3 v [v] = [v]"
  by (simp add: mru3_def arrayFromSet_def)

lemma find_last:
  "find P xs = None \<Longrightarrow> P y \<Longrightarrow> find P (xs @ [y]) = Some y"
  by (induction xs) (auto split: if_splits)

lemma update_same:
  assumes q: "concurrent w (rows s) = rows s"
    and rows: "rows s = rs @ [c]"
    and others: "\<And>x. x \<in> set rs \<Longrightarrow> id_row x \<noteq> id_row c \<and> creatorId x \<noteq> creatorId c"
    and same: "f c = c"
  shows "update w (id_row c) f s = (Inr c, s\<lparr>writes := Suc (writes s)\<rparr>)"
proof -
  from others have "find (\<lambda>r. id_row r = id_row c) rs = None"
    by (auto simp: find_None_iff)
  then have "find (\<lambda>r. id_row r = id_row c) (rs @ [c]) = Some c"
    by (rule find_last) simp
  with q rows have found: "find (\<lambda>r. id_row r = id_row c) (concurrent w (rows s)) = Some c"
    by simp
  from others have "\<not> list_ex (\<lambda>x. id_row x \<noteq> id_row c \<and> creatorId x = creatorId c) (rs @ [c])"
    by (auto simp: list_ex_iff)
  with q rows same
  have clash: "\<not> list_ex (\<lambda>x. id_row x \<noteq> id_row c \<and> creatorId x = creatorId (f c))
                 (concurrent w (rows s))"
    by simp
  from others have "map (\<lambda>x. if id_row x = id_row c then c else x) rs = rs"
    by (intro map_idI) auto
  then have "map (\<lambda>x. if id_row x = id_row c then c else x) (rs @ [c]) = rs @ [c]"
    by simp
  with q rows
  have kept: "map (\<lambda>x. if id_row x = id_row c then c else x) (concurrent w (rows s)) = rows s"
    by simp
  have "update w (id_row c) f s
        = (Inr (f c), s\<lparr>rows := concurrent w (rows s), writes := Suc (writes s),
                        rows := map (\<lambda>x. if id_row x = id_row c then f c else x)
                                  (concurrent w (rows s))\<rparr>)"
    unfolding update_def Let_def by (simp only: found clash option.case if_False)
  also have "\<dots> = (Inr c, s\<lparr>writes := Suc (writes s)\<rparr>)"
    unfolding same kept by (cases s) simp
  finally show ?thesis .
qed

lemma creation_result:
  assumes ctx: "resolveContext w auth = Inr ctx"
    and none: "fst (findMany (searchConditions ctx) s) = []"
    and q: "concurrent w (rows s) = rows s"
    and res: "authenticateCreatorForMod w w' auth s = (Inr c, s1)"
  shows "validateCreatorName (effectiveCreatorName ctx) = Inr (creatorName c)"
    and "id_row c = freshId (rows s)"
    and "creatorId c = effectiveCreatorId ctx"
    and "creatorIdProvider c = creatorIdProvider_ctx ctx"
    and "creatorNameSlug c = creatorNameSlug_ctx ctx"
    and "minecraftPlayerUuid c = effectiveMinecraftPlayerUuid ctx"
    and "\<not> allowCreatorIdReset c"
    and "hwids c = [hwid_ctx ctx]"
    and "ips c = [ip_ctx ctx]"
    and "s1 = s\<lparr>reads := Suc (reads s), rows := rows s @ [c], writes := Suc (writes s),
                translationJobs := translationJobs s @ [id_row c]\<rparr>"
proof -
  let ?s0 = "s\<lparr>reads := Suc (reads s)\<rparr>"
  have q0: "concurrent w (rows ?s0) = rows ?s0" using q by simp
  have free: "\<And>x. x \<in> set (rows ?s0) \<Longrightarrow> creatorId x \<noteq> effectiveCreatorId ctx"
    using findMany_none(2) [OF none] by simp
  from ctx none have run: "authenticateCreatorForModUnsafe w auth s = createCreator w ctx ?s0"
    by (rule unsafe_none)
  obtain name where v: "validateCreatorName (effectiveCreatorName ctx) = Inr name"
  proof (cases "validateCreatorName (effectiveCreatorName ctx)")
    case (Inl e)
    then have "createCreator w ctx ?s0 = (Inl e, ?s0)" by (simp add: createCreator_def)
    with run have r: "authenticateCreatorForModUnsafe w auth s = (Inl e, ?s0)" by simp
    from Inl obtain bad where "e = InvalidCreatorNameError bad"
      using validateCreatorName_error by blast
    with r have "authenticateCreatorForMod w w' auth s = (Inl e, ?s0)"
      by (intro wrapper_first) simp_all
    with res show ?thesis by simp
  next
    case (Inr name)
    then show ?thesis by (rule that)
  qed
  note created = createCreator_quiet [OF q0 free v]
  from run have first: "authenticateCreatorForModUnsafe w auth s
      = (Inr \<lparr>id_row = freshId (rows ?s0),
                  creatorId = effectiveCreatorId ctx,
                  creatorIdProvider = creatorIdProvider_ctx ctx,
                  creatorName = name,
                  creatorNameSlug = creatorNameSlug_ctx ctx,
                  minecraftPlayerUuid = effectiveMinecraftPlayerUuid ctx,
                  allowCreatorIdReset = False,
                  hwids = [hwid_ctx ctx],
                  ips = [ip_ctx ctx]\<rparr>,
            ?s0\<lparr>rows := rows ?s0 @ [\<lparr>id_row = freshId (rows ?s0),
                  creatorId = effectiveCreatorId ctx,
                  creatorIdProvider = creatorIdProvider_ctx ctx,
                  creatorName = name,
                  creatorNameSlug = creatorNameSlug_ctx ctx,
                  minecraftPlayerUuid = effectiveMinecraftPlayerUuid ctx,
                  allowCreatorIdReset = False,
                  hwids = [hwid_ctx ctx],
                  ips = [ip_ctx ctx]\<rparr>],
               writes := Suc (writes ?s0),
               translationJobs := translationJobs ?s0 @ [freshId (rows ?s0)]\<rparr>)"
    by (simp only: created)
  from wrapper_first [OF first, of w'] res
  have c: "c = \<lparr>id_row = freshId (rows s),
                  creatorId = effectiveCreatorId ctx,
                  creatorIdProvider = creatorIdProvider_ctx ctx,
                  creatorName = name,
                  creatorNameSlug = creatorNameSlug_ctx ctx,
                  minecraftPlayerUuid = effectiveMinecraftPlayerUuid ctx,
                  allowCreatorIdReset = False,
                  hwids = [hwid_ctx ctx],
                  ips = [ip_ctx ctx]\<rparr>"
    and s1: "s1 = s\<lparr>reads := Suc (reads s), rows := rows s @ [c], writes := Suc (writes s),
                translationJobs := translationJobs s @ [freshId (rows s)]\<rparr>"
    by auto
  from c v show "validateCreatorName (effectiveCreatorName ctx) = Inr (creatorName c)" by simp
  from c show "id_row c = freshId (rows s)" by simp
  from c show "creatorId c = effectiveCreatorId ctx" by simp
  from c show "creatorIdProvider c = creatorIdProvider_ctx ctx" by simp
  from c show "creatorNameSlug c = creatorNameSlug_ctx ctx" by simp
  from c show "minecraftPlayerUuid c = effectiveMinecraftPlayerUuid ctx" by simp
  from c show "\<not> allowCreatorIdReset c" by simp
  from c show "hwids c = [hwid_ctx ctx]" by simp
  from c show "ips c = [ip_ctx ctx]" by simp
  from c s1 show "s1 = s\<lparr>reads := Suc (reads s), rows := rows s @ [c], writes := Suc (writes s),
                translationJobs := translationJobs s @ [id_row c]\<rparr>"
    by simp
qed

lemma rerun_rewrites:
  assumes none: "fst (findMany (searchConditions ctx) s) = []"
    and rows1: "rows s1 = rows s @ [c]"
    and q: "concurrent w (rows s1) = rows s1"
    and i: "id_row c = freshId (rows s)"
    and cid: "creatorId c = effectiveCreatorId ctx"
    and p: "creatorIdProvider c = creatorIdProvider_ctx ctx"
    and slug: "creatorNameSlug c = creatorNameSlug_ctx ctx"
    and u: "minecraftPlayerUuid c = effectiveMinecraftPlayerUuid ctx"
    and r: "\<not> allowCreatorIdReset c"
    and h: "hwids c = [hwid_ctx ctx]"
    and a: "ips c = [ip_ctx ctx]"
    and v: "validateCreatorName (effectiveCreatorName ctx) = Inr (creatorName c)"
    and n: "creatorName c \<noteq> effectiveCreatorName ctx"
  shows "updateCreator w c ctx s1 = (Inr c, s1\<lparr>writes := Suc (writes s1)\<rparr>)"
proof -
  let ?f = "\<lambda>r. r\<lparr>creatorName := creatorName c,
                     creatorNameSlug := creatorNameSlug_ctx ctx,
                     allowCreatorIdReset := False,
                     creatorId := effectiveCreatorId ctx,
                     creatorIdProvider := creatorIdProvider_ctx ctx,
                     minecraftPlayerUuid := effectiveMinecraftPlayerUuid ctx,
                     hwids := mru3 (hwid_ctx ctx) (hwids c),
                     ips := mru3 (ip_ctx ctx) (ips c)\<rparr>"
  have same: "?f c = c"
    using cid p slug u r h a by (cases c) (simp add: mru3_singleton)
  have others: "id_row x \<noteq> id_row c \<and> creatorId x \<noteq> creatorId c" if "x \<in> set (rows s)" for x
    using freshId_greater [OF that] findMany_none(2) [OF none that] i cid by simp
  have w: "update w (id_row c) ?f s1 = (Inr c, s1\<lparr>writes := Suc (writes s1)\<rparr>)"
    using q rows1 others same by (rule update_same)
  from n have m: "modified c ctx" by (simp add: modified_def)
  show ?thesis
    unfolding updateCreator_def by (simp add: cid m n v w)
qed

text \<open>
  Claim C5. If the query returns the single account \<open>c\<close> and the name, the slug, the heads
  of the device and IP histories, the Creator ID, the Minecraft player UUID and the
  provider of \<open>c\<close> are the effective values of the claim, the authentication returns \<open>c\<close>
  and the store is as before but for the count of queries: it writes nothing. If a claim
  that matches no account creates the account \<open>c\<close>, in a run that no other request
  disturbs, then the same claim, run again on the store as the creation left it, returns
  \<open>c\<close> again and leaves every row and the list of started translations as they are. The
  name of \<open>c\<close> is the claimed name as \<open>validateCreatorName\<close> returns it: where that is the
  claimed name itself the second run writes nothing, and where it is not the second run
  writes the row once more, with the values the row has already, if no other request
  disturbs that write. The translation columns, which only the background translation
  writes, are not columns of the record \<open>Creator\<close>.
\<close>

theorem unchanged_claim_no_write:
  "(resolveContext w auth = Inr ctx \<and> fst (findMany (searchConditions ctx) s) = [c]
      \<and> creatorName c = effectiveCreatorName ctx
      \<and> creatorNameSlug c = creatorNameSlug_ctx ctx
      \<and> \<not> headDiffers (hwids c) (hwid_ctx ctx)
      \<and> \<not> headDiffers (ips c) (ip_ctx ctx)
      \<and> creatorId c = effectiveCreatorId ctx
      \<and> minecraftPlayerUuid c = effectiveMinecraftPlayerUuid ctx
      \<and> creatorIdProvider c = creatorIdProvider_ctx ctx
     \<longrightarrow> authenticateCreatorForMod w w' auth s = (Inr c, s\<lparr>reads := Suc (reads s)\<rparr>))
   \<and> (resolveContext w auth = Inr ctx \<and> fst (findMany (searchConditions ctx) s) = []
      \<and> concurrent w (rows s) = rows s
      \<and> authenticateCreatorForMod w w' auth s = (Inr c, s1)
      \<and> resolveContext w2 auth = Inr ctx
      \<and> (creatorName c \<noteq> effectiveCreatorName ctx \<longrightarrow> concurrent w2 (rows s1) = rows s1)
     \<longrightarrow> rows s1 = rows s @ [c] \<and> writes s1 = Suc (writes s)
       \<and> validateCreatorName (effectiveCreatorName ctx) = Inr (creatorName c)
       \<and> authenticateCreatorForMod w2 w2' auth s1
         = (Inr c, s1\<lparr>reads := Suc (reads s1),
                     writes := (if creatorName c = effectiveCreatorName ctx
                                then writes s1 else Suc (writes s1))\<rparr>))"
proof (intro conjI impI)
  assume a: "resolveContext w auth = Inr ctx \<and> fst (findMany (searchConditions ctx) s) = [c]
      \<and> creatorName c = effectiveCreatorName ctx
      \<and> creatorNameSlug c = creatorNameSlug_ctx ctx
      \<and> \<not> headDiffers (hwids c) (hwid_ctx ctx)
      \<and> \<not> headDiffers (ips c) (ip_ctx ctx)
      \<and> creatorId c = effectiveCreatorId ctx
      \<and> minecraftPlayerUuid c = effectiveMinecraftPlayerUuid ctx
      \<and> creatorIdProvider c = creatorIdProvider_ctx ctx"
  then have "authenticateCreatorForModUnsafe w auth s
             = updateCreator w c ctx (s\<lparr>reads := Suc (reads s)\<rparr>)"
    by (simp add: unsafe_one)
  moreover from a have "\<not> modified c ctx" by (simp add: modified_def)
  ultimately have "authenticateCreatorForModUnsafe w auth s = (Inr c, s\<lparr>reads := Suc (reads s)\<rparr>)"
    using a by (simp add: updateCreator_unmodified)
  then show "authenticateCreatorForMod w w' auth s = (Inr c, s\<lparr>reads := Suc (reads s)\<rparr>)"
    by (rule wrapper_first) simp
next
  assume b: "resolveContext w auth = Inr ctx \<and> fst (findMany (searchConditions ctx) s) = []
      \<and> concurrent w (rows s) = rows s
      \<and> authenticateCreatorForMod w w' auth s = (Inr c, s1)
      \<and> resolveContext w2 auth = Inr ctx
      \<and> (creatorName c \<noteq> effectiveCreatorName ctx \<longrightarrow> concurrent w2 (rows s1) = rows s1)"
  let ?s2 = "s1\<lparr>reads := Suc (reads s1)\<rparr>"
  from b have ctx: "resolveContext w auth = Inr ctx"
    and none: "fst (findMany (searchConditions ctx) s) = []"
    and q: "concurrent w (rows s) = rows s"
    and res: "authenticateCreatorForMod w w' auth s = (Inr c, s1)"
    and ctx2: "resolveContext w2 auth = Inr ctx"
    and q2: "creatorName c \<noteq> effectiveCreatorName ctx \<Longrightarrow> concurrent w2 (rows s1) = rows s1"
    by simp_all
  note made = creation_result [OF ctx none q res]
  from made(10) have rows1: "rows s1 = rows s @ [c]" and writes1: "writes s1 = Suc (writes s)"
    by simp_all
  show "rows s1 = rows s @ [c]" by (rule rows1)
  show "writes s1 = Suc (writes s)" by (rule writes1)
  show v: "validateCreatorName (effectiveCreatorName ctx) = Inr (creatorName c)" by (rule made(1))
  from none made(3) rows1 have "fst (findMany (searchConditions ctx) s1) = [c]"
    by (rule findMany_appended)
  with ctx2 have run: "authenticateCreatorForModUnsafe w2 auth s1 = updateCreator w2 c ctx ?s2"
    by (rule unsafe_one)
  have "updateCreator w2 c ctx ?s2
        = (Inr c, s1\<lparr>reads := Suc (reads s1),
                     writes := (if creatorName c = effectiveCreatorName ctx
                                then writes s1 else Suc (writes s1))\<rparr>)"
  proof (cases "creatorName c = effectiveCreatorName ctx")
    case True
    with made have "\<not> modified c ctx" by (simp add: modified_def headDiffers_def)
    with made(3) have "updateCreator w2 c ctx ?s2 = (Inr c, ?s2)"
      by (simp add: updateCreator_unmodified)
    also have "?s2 = s1\<lparr>reads := Suc (reads s1), writes := writes s1\<rparr>" by simp
    finally show ?thesis using True by simp
  next
    case False
    have rows2: "rows ?s2 = rows s @ [c]" using rows1 by simp
    have q2': "concurrent w2 (rows ?s2) = rows ?s2" using q2 [OF False] by simp
    from none rows2 q2' made(2-9) v False
    have "updateCreator w2 c ctx ?s2 = (Inr c, ?s2\<lparr>writes := Suc (writes ?s2)\<rparr>)"
      by (rule rerun_rewrites)
    then show ?thesis using False by simp
  qed
  with run have "authenticateCreatorForModUnsafe w2 auth s1
        = (Inr c, s1\<lparr>reads := Suc (reads s1),
                     writes := (if creatorName c = effectiveCreatorName ctx
                                then writes s1 else Suc (writes s1))\<rparr>)"
    by simp
  then show "authenticateCreatorForMod w2 w2' auth s1
         = (Inr c, s1\<lparr>reads := Suc (reads s1),
                     writes := (if creatorName c = effectiveCreatorName ctx
                                then writes s1 else Suc (writes s1))\<rparr>)"
    by (rule wrapper_first) simp
qed

theorem unchanged_claim_no_write_witness:
  "resolveContext quiet (claimOf Paradox idA (Some (js ''Bob'')) (js ''hw1'') (js ''10.0.0.1''))
     = Inr (contextOf idA (Some (js ''Bob'')) (js ''hw1'') (js ''10.0.0.1''))
   \<and> fst (findMany (searchConditions (contextOf idA (Some (js ''Bob'')) (js ''hw1'') (js ''10.0.0.1'')))
         (storeOf [bob])) = [bob]
   \<and> creatorName bob = Some (js ''Bob'')
   \<and> creatorNameSlug bob = getCreatorNameSlug (Some (js ''Bob''))
   \<and> \<not> headDiffers (hwids bob) (js ''hw1'') \<and> \<not> headDiffers (ips bob) (js ''10.0.0.1'')
   \<and> creatorId bob = idA \<and> minecraftPlayerUuid bob = None \<and> creatorIdProvider bob = Paradox
   \<and> authenticateCreatorForMod quiet quiet
        (claimOf Paradox idA (Some (js ''Bob'')) (js ''hw1'') (js ''10.0.0.1'')) (storeOf [bob])
     = (Inr bob, \<lparr>rows = [bob], reads = 1, writes = 0, translationJobs = []\<rparr>)
   \<and> resolveContext quiet (claimOf Paradox idB (Some (js ''Carol'')) (js ''hw1'') (js ''10.0.0.1''))
     = Inr (contextOf idB (Some (js ''Carol'')) (js ''hw1'') (js ''10.0.0.1''))
   \<and> fst (findMany (searchConditions (contextOf idB (Some (js ''Carol'')) (js ''hw1'') (js ''10.0.0.1'')))
         (storeOf [bob])) = []
   \<and> concurrent quiet (rows (storeOf [bob])) = rows (storeOf [bob])
   \<and> authenticateCreatorForMod quiet quiet
        (claimOf Paradox idB (Some (js ''Carol'')) (js ''hw1'') (js ''10.0.0.1'')) (storeOf [bob])
     = (Inr carol, \<lparr>rows = [bob, carol], reads = 1, writes = 1, translationJobs = [2]\<rparr>)
   \<and> creatorName carol = Some (js ''Carol'')
   \<and> validateCreatorName (Some (js ''Carol'')) = Inr (Some (js ''Carol''))
   \<and> authenticateCreatorForMod quiet quiet
        (claimOf Paradox idB (Some (js ''Carol'')) (js ''hw1'') (js ''10.0.0.1''))
        \<lparr>rows = [bob, carol], reads = 1, writes = 1, translationJobs = [2]\<rparr>
     = (Inr carol, \<lparr>rows = [bob, carol], reads = 2, writes = 1, translationJobs = [2]\<rparr>)
   \<and> resolveContext quiet (claimOf Paradox idB (Some (js ''Bob  Smith'')) (js ''hw1'') (js ''10.0.0.1''))
     = Inr (contextOf idB (Some (js ''Bob  Smith'')) (js ''hw1'') (js ''10.0.0.1''))
   \<and> fst (findMany (searchConditions
              (contextOf idB (Some (js ''Bob  Smith'')) (js ''hw1'') (js ''10.0.0.1'')))
         (storeOf [])) = []
   \<and> concurrent quiet (rows (storeOf [])) = rows (storeOf [])
   \<and> authenticateCreatorForMod quiet quiet
        (claimOf Paradox idB (Some (js ''Bob  Smith'')) (js ''hw1'') (js ''10.0.0.1'')) (storeOf [])
     = (Inr bobSmith, \<lparr>rows = [bobSmith], reads = 1, writes = 1, translationJobs = [1]\<rparr>)
   \<and> creatorName bobSmith \<noteq> Some (js ''Bob  Smith'')
   \<and> concurrent quiet [bobSmith] = [bobSmith]
   \<and> validateCreatorName (Some (js ''Bob  Smith'')) = Inr (Some (js ''Bob Smith''))
   \<and> authenticateCreatorForMod quiet quiet
        (claimOf Paradox idB (Some (js ''Bob  Smith'')) (js ''hw1'') (js ''10.0.0.1''))
        \<lparr>rows = [bobSmith], reads = 1, writes = 1, translationJobs = [1]\<rparr>
     = (Inr bobSmith, \<lparr>rows = [bobSmith], reads = 2, writes = 2, translationJobs = [1]\<rparr>)"
  using unchanged_claim_no_write [where w = quiet and w' = quiet
      and auth = "claimOf Paradox idA (Some (js ''Bob'')) (js ''hw1'') (js ''10.0.0.1'')"
      and ctx = "contextOf idA (Some (js ''Bob'')) (js ''hw1'') (js ''10.0.0.1'')"
      and s = "storeOf [bob]" and c = bob]
    unchanged_claim_no_write [where w = quiet and w' = quiet and ?w2.0 = quiet and w2' = quiet
      and auth = "claimOf Paradox idB (Some (js ''Carol'')) (js ''hw1'') (js ''10.0.0.1'')"
      and ctx = "contextOf idB (Some (js ''Carol'')) (js ''hw1'') (js ''10.0.0.1'')"
      and s = "storeOf [bob]" and c = carol
      and ?s1.0 = "\<lparr>rows = [bob, carol], reads = 1, writes = 1, translationJobs = [2]\<rparr>"]
    unchanged_claim_no_write [where w = quiet and w' = quiet and ?w2.0 = quiet and w2' = quiet
      and auth = "claimOf Paradox idB (Some (js ''Bob  Smith'')) (js ''hw1'') (js ''10.0.0.1'')"
      and ctx = "contextOf idB (Some (js ''Bob  Smith'')) (js ''hw1'') (js ''10.0.0.1'')"
      and s = "storeOf []" and c = bobSmith
      and ?s1.0 = "\<lparr>rows = [bobSmith], reads = 1, writes = 1, translationJobs = [1]\<rparr>"]
  by (simp add: string_defs store_defs auth_defs example_defs)

end
